theory Spec2Isabelle
  imports Main "HOL-Library.Word"
begin

unbundle bit_operations_syntax

section \<open>SID ubridge: command pipeline and worker observer\<close>

text \<open>
  A shallow embedding of the ubridge code of SID (the second document of
  \<^verbatim>\<open>src/include/kv-store.h\<close>, lines 128 to 1036): the decoder of the
  NUL-delimited udev environment, the command dispatch of a worker and the
  handlers with which an observer follows its worker.

  Conventions of the embedding.
  \<^item> A C string is the list of its bytes before the terminating NUL; a
    \<^verbatim>\<open>const char *\<close> field that may be \<^verbatim>\<open>NULL\<close> is a \<open>string option\<close>.
  \<^item> A function that changes the object it is handed returns the changed
    object next to its C return value.
  \<^item> A library call whose result the source tests gets both branches, the
    outcome being an argument of the model; a call whose result the source
    drops is modelled by the effect it has when it succeeds.
  \<^item> Source names lose their leading underscore.
\<close>

subsection \<open>C library functions used by the decoder\<close>

abbreviation NUL :: char where
  "NUL \<equiv> CHR 0x00"

definition EINVAL :: int where
  "EINVAL = 22"

definition ULLONG_MAX :: nat where
  "ULLONG_MAX = 2 ^ 64 - 1"

text \<open>
  \<^verbatim>\<open>strchr(s, c)\<close>: the offset of the first \<open>c\<close> in the string, the
  terminator counting as part of it; \<open>None\<close> is the null pointer.
\<close>

fun strchr :: "string \<Rightarrow> char \<Rightarrow> nat option" where
  "strchr [] c = (if c = NUL then Some 0 else None)"
| "strchr (x # xs) c = (if x = c then Some 0 else map_option Suc (strchr xs c))"

text \<open>
  \<^verbatim>\<open>memchr(s, c, n)\<close>: the offset of the first \<open>c\<close> among the first \<open>n\<close>
  bytes of the buffer \<open>s\<close>. The decoder calls it with \<open>n\<close> the number of
  bytes left in the buffer, so the second equation is never reached from it.
\<close>

fun memchr :: "string \<Rightarrow> char \<Rightarrow> nat \<Rightarrow> nat option" where
  "memchr s c 0 = None"
| "memchr [] c (Suc n) = None"
| "memchr (x # xs) c (Suc n) = (if x = c then Some 0 else map_option Suc (memchr xs c n))"

text \<open>
  \<^verbatim>\<open>strncmp(s1, s2, n)\<close>: compares at most \<open>n\<close> characters and stops at
  the end of either string; the sign of the result is that of the first
  difference, a string that has ended reading as NUL.
\<close>

fun strncmp :: "string \<Rightarrow> string \<Rightarrow> nat \<Rightarrow> int" where
  "strncmp s1 s2 0 = 0"
| "strncmp [] [] (Suc n) = 0"
| "strncmp [] (b # s2) (Suc n) = - int (of_char b)"
| "strncmp (a # s1) [] (Suc n) = int (of_char a)"
| "strncmp (a # s1) (b # s2) (Suc n) =
     (if a = b then strncmp s1 s2 n else int (of_char a) - int (of_char b))"

definition isspace :: "char \<Rightarrow> bool" where
  "isspace c =
     (c = CHR '' '' \<or> c = CHR 0x09 \<or> c = CHR 0x0A \<or> c = CHR 0x0B \<or> c = CHR 0x0C \<or> c = CHR 0x0D)"

text \<open>The value of a character as a digit: 0-9, then a-z and A-Z for 10 to 35.\<close>

definition digit_val :: "char \<Rightarrow> nat option" where
  "digit_val c =
     (let n = (of_char c :: nat) in
      if 48 \<le> n \<and> n \<le> 57 then Some (n - 48)
      else if 97 \<le> n \<and> n \<le> 122 then Some (n - 87)
      else if 65 \<le> n \<and> n \<le> 90 then Some (n - 55)
      else None)"

text \<open>The longest prefix of digits that are valid in \<open>base\<close>, as their values.\<close>

fun scan_digits :: "nat \<Rightarrow> string \<Rightarrow> nat list" where
  "scan_digits base [] = []"
| "scan_digits base (c # cs) =
     (case digit_val c of
        None \<Rightarrow> []
      | Some d \<Rightarrow> if d < base then d # scan_digits base cs else [])"

definition digits_value :: "nat \<Rightarrow> nat list \<Rightarrow> nat" where
  "digits_value base ds = foldl (\<lambda>a d. a * base + d) 0 ds"

definition is_negative :: "string \<Rightarrow> bool" where
  "is_negative s = (case s of [] \<Rightarrow> False | c # _ \<Rightarrow> c = CHR ''-'')"

definition skip_sign :: "string \<Rightarrow> string" where
  "skip_sign s =
     (case s of [] \<Rightarrow> [] | c # cs \<Rightarrow> if c = CHR ''-'' \<or> c = CHR ''+'' then cs else s)"

definition has_hex_prefix :: "string \<Rightarrow> bool" where
  "has_hex_prefix s =
     (case s of
        z # x # d # _ \<Rightarrow>
          z = CHR ''0'' \<and> (x = CHR ''x'' \<or> x = CHR ''X'') \<and>
          (case digit_val d of None \<Rightarrow> False | Some v \<Rightarrow> v < 16)
      | _ \<Rightarrow> False)"

definition LONG_MAX :: int where
  "LONG_MAX = 2 ^ 63 - 1"

definition LONG_MIN :: int where
  "LONG_MIN = - (2 ^ 63)"

text \<open>
  \<^verbatim>\<open>atoi(nptr)\<close>: white space, an optional sign, decimal digits. The
  result is a C \<^verbatim>\<open>int\<close>, a 32-bit word read in two's complement. C
  leaves it undefined when the number does not fit; the model follows
  glibc, where \<^verbatim>\<open>atoi\<close> is \<^verbatim>\<open>(int) strtol(nptr, NULL, 10)\<close>: the
  number is clamped to the range of \<^verbatim>\<open>long\<close> and its low 32 bits are
  kept.
\<close>

definition atoi :: "string \<Rightarrow> 32 word" where
  "atoi nptr =
     (let s = dropWhile isspace nptr;
          v = int (digits_value 10 (scan_digits 10 (skip_sign s)));
          l = (if is_negative s then max LONG_MIN (- v) else min LONG_MAX v)
      in word_of_int l)"

text \<open>
  \<^verbatim>\<open>strtoull(nptr, NULL, base)\<close>: white space, an optional sign, for base
  16 or 0 an optional \<^verbatim>\<open>0x\<close>, then the digits valid in the base (base 0
  reads the base off the prefix). No digits give 0, a value beyond
  \<^verbatim>\<open>ULLONG_MAX\<close> gives \<^verbatim>\<open>ULLONG_MAX\<close>, a minus sign negates in
  \<^verbatim>\<open>unsigned long long\<close>. A base of 1 or above 36 is refused: the result
  is 0 (with \<^verbatim>\<open>errno\<close> set to \<^verbatim>\<open>EINVAL\<close>).
\<close>

definition strtoull :: "string \<Rightarrow> nat \<Rightarrow> 64 word" where
  "strtoull nptr base =
     (if base = 1 \<or> 36 < base then 0
      else
        let s = dropWhile isspace nptr;
            s1 = skip_sign s;
            hex = ((base = 0 \<or> base = 16) \<and> has_hex_prefix s1);
            b = (if base = 0
                 then (if hex then 16 else if take 1 s1 = ''0'' then 8 else 10)
                 else base);
            v = digits_value b (scan_digits b (if hex then drop 2 s1 else s1))
        in if ULLONG_MAX < v then word_of_nat ULLONG_MAX
           else if is_negative s then - word_of_nat v
           else word_of_nat v)"

subsection \<open>The device record\<close>

text \<open>
  Modelled from the spec: \<^verbatim>\<open>udev_action_t\<close> and
  \<^verbatim>\<open>util_get_udev_action_from_string\<close> are declared in a header that is
  not among the sources. The spec gives the table: ACTION is mapped through
  a string to enum table (add, remove, change, move, online, offline, bind,
  unbind). A string outside the table is mapped to
  \<open>UDEV_ACTION_UNKNOWN\<close>, which is also taken to be the enumerator a zeroed
  allocation holds.
\<close>

datatype udev_action_t =
    UDEV_ACTION_UNKNOWN
  | UDEV_ACTION_ADD
  | UDEV_ACTION_REMOVE
  | UDEV_ACTION_CHANGE
  | UDEV_ACTION_MOVE
  | UDEV_ACTION_ONLINE
  | UDEV_ACTION_OFFLINE
  | UDEV_ACTION_BIND
  | UDEV_ACTION_UNBIND

definition util_get_udev_action_from_string :: "string \<Rightarrow> udev_action_t" where
  "util_get_udev_action_from_string str =
     (if str = ''add'' then UDEV_ACTION_ADD
      else if str = ''remove'' then UDEV_ACTION_REMOVE
      else if str = ''change'' then UDEV_ACTION_CHANGE
      else if str = ''move'' then UDEV_ACTION_MOVE
      else if str = ''online'' then UDEV_ACTION_ONLINE
      else if str = ''offline'' then UDEV_ACTION_OFFLINE
      else if str = ''bind'' then UDEV_ACTION_BIND
      else if str = ''unbind'' then UDEV_ACTION_UNBIND
      else UDEV_ACTION_UNKNOWN)"

text \<open>
  \<^verbatim>\<open>struct device\<close>. \<open>major\<close> and \<open>minor\<close> are C
  \<^verbatim>\<open>int\<close>s, 32-bit words read with \<open>sint\<close>. The three string fields
  point into \<open>raw_udev_env\<close>; the model holds the strings they point at.
  \<^verbatim>\<open>raw_udev_env_len\<close> is the length of \<open>raw_udev_env\<close>; the field
  \<^verbatim>\<open>custom\<close> is never used.
\<close>

record device =
  action :: udev_action_t
  major :: "32 word"
  minor :: "32 word"
  name :: "string option"
  type :: "string option"
  seqnum :: "64 word"
  synth_uuid :: "string option"
  raw_udev_env :: string

definition raw_udev_env_len :: "device \<Rightarrow> nat" where
  "raw_udev_env_len d = length (raw_udev_env d)"

subsection \<open>Decoding the udev environment\<close>

text \<open>
  \<^verbatim>\<open>_device_add_field\<close>. \<open>key\<close> is the entry, a C string. The first
  test is \<^verbatim>\<open>!(value = strchr(key, '=')) || !*(value++)\<close>: the byte that
  is tested against NUL is the one \<^verbatim>\<open>strchr\<close> found, and \<open>value\<close> is
  moved past it afterwards. \<open>key_len\<close> is the offset of the \<open>=\<close>. Each
  key is compared with \<^verbatim>\<open>strncmp(key, "...", key_len)\<close>, and SEQNUM is
  read with \<^verbatim>\<open>strtoull(value, NULL, key_len)\<close>.
\<close>

definition device_add_field :: "device \<Rightarrow> string \<Rightarrow> int \<times> device" where
  "device_add_field dev key =
     (case strchr key (CHR ''='') of
        None \<Rightarrow> (- 1, dev)
      | Some off \<Rightarrow>
          if key ! off = NUL then (- 1, dev)
          else
            let value = drop (Suc off) key;
                key_len = off
            in if strncmp key ''ACTION'' key_len = 0
               then (0, dev\<lparr>action := util_get_udev_action_from_string value\<rparr>)
               else if strncmp key ''DEVNAME'' key_len = 0
               then (0, dev\<lparr>name := Some value\<rparr>)
               else if strncmp key ''DEVTYPE'' key_len = 0
               then (0, dev\<lparr>type := Some value\<rparr>)
               else if strncmp key ''MAJOR'' key_len = 0
               then (0, dev\<lparr>major := atoi value\<rparr>)
               else if strncmp key ''MINOR'' key_len = 0
               then (0, dev\<lparr>minor := atoi value\<rparr>)
               else if strncmp key ''SEQNUM'' key_len = 0
               then (0, dev\<lparr>seqnum := strtoull value key_len\<rparr>)
               else if strncmp key ''SYNTH_UUID'' key_len = 0
               then (0, dev\<lparr>synth_uuid := Some value\<rparr>)
               else (0, dev))"

lemma device_add_field_raw [simp]:
  "raw_udev_env (snd (device_add_field dev key)) = raw_udev_env dev"
  by (simp add: device_add_field_def Let_def split: option.split)

text \<open>
  The loop of \<^verbatim>\<open>_parse_cmd_nullstr_udev_env\<close>, \<open>i\<close> being its counter.
  The string at \<open>str\<close> ends at the NUL that \<^verbatim>\<open>memchr\<close> found, so the
  entry handed to \<^verbatim>\<open>_device_add_field\<close> is the \<open>delim\<close> bytes before it.
\<close>

function parse_loop :: "nat \<Rightarrow> device \<Rightarrow> int \<times> device" where
  "parse_loop i dev =
     (if i < raw_udev_env_len dev then
        (let str = drop i (raw_udev_env dev) in
         case memchr str NUL (raw_udev_env_len dev - i) of
           None \<Rightarrow> (- EINVAL, dev)
         | Some delim \<Rightarrow>
             (let rd = device_add_field dev (take delim str) in
              if fst rd < 0 then (- EINVAL, snd rd)
              else parse_loop (i + delim + 1) (snd rd)))
      else (0, dev))"
  by pat_completeness auto
termination
  by (relation "measure (\<lambda>(i, dev). raw_udev_env_len dev - i)")
     (auto simp: raw_udev_env_len_def)

declare parse_loop.simps [simp del]

subsection \<open>Wire structures\<close>

text \<open>
  \<^verbatim>\<open>struct raw_command_header\<close> (packed, 10 bytes before \<open>data\<close>) and
  \<^verbatim>\<open>struct version\<close> (packed, 6 bytes).
\<close>

record raw_command_header =
  protocol :: "8 word"
  cmd_number :: "8 word"
  status :: "64 word"
  data :: string

definition sizeof_raw_command_header :: nat where
  "sizeof_raw_command_header = 10"

record raw_command =
  header :: raw_command_header
  len :: nat

record version =
  ver_major :: "16 word"
  ver_minor :: "16 word"
  ver_release :: "16 word"

definition sizeof_version :: nat where
  "sizeof_version = 6"

subsection \<open>Constants and enumerations\<close>

definition UBRIDGE_PROTOCOL :: "8 word" where
  "UBRIDGE_PROTOCOL = 1"

definition WORKER_IDLE_TIMEOUT_USEC :: "64 word" where
  "WORKER_IDLE_TIMEOUT_USEC = 5000000"

definition INTERNAL_COMMS_CMD_RUNNING :: "8 word" where
  "INTERNAL_COMMS_CMD_RUNNING = 1"

definition INTERNAL_COMMS_CMD_IDLE :: "8 word" where
  "INTERNAL_COMMS_CMD_IDLE = 2"

definition COMMAND_STATUS_MASK_OVERALL :: "64 word" where
  "COMMAND_STATUS_MASK_OVERALL = 1"

definition COMMAND_STATUS_FAILURE :: "64 word" where
  "COMMAND_STATUS_FAILURE = 1"

text \<open>\<^verbatim>\<open>command_t\<close>, by its values; \<open>CMD_END\<close> follows \<open>CMD_CHECKPOINT\<close>.\<close>

definition CMD_START :: nat where "CMD_START = 0"
definition CMD_UNKNOWN :: nat where "CMD_UNKNOWN = 0"
definition CMD_REPLY :: nat where "CMD_REPLY = 1"
definition CMD_VERSION :: nat where "CMD_VERSION = 2"
definition CMD_IDENTIFY :: nat where "CMD_IDENTIFY = 3"
definition CMD_CHECKPOINT :: nat where "CMD_CHECKPOINT = 4"
definition CMD_END :: nat where "CMD_END = 5"

lemmas command_t_defs =
  CMD_START_def CMD_UNKNOWN_def CMD_REPLY_def CMD_VERSION_def CMD_IDENTIFY_def
  CMD_CHECKPOINT_def CMD_END_def

text \<open>\<^verbatim>\<open>cmd_ident_phase_t\<close>, by its values.\<close>

definition CMD_IDENT_PHASE_START :: nat where "CMD_IDENT_PHASE_START = 0"
definition CMD_IDENT_PHASE_IDENT :: nat where "CMD_IDENT_PHASE_IDENT = 0"
definition CMD_IDENT_PHASE_SCAN_PRE :: nat where "CMD_IDENT_PHASE_SCAN_PRE = 1"
definition CMD_IDENT_PHASE_SCAN_CORE_CURRENT :: nat where "CMD_IDENT_PHASE_SCAN_CORE_CURRENT = 2"
definition CMD_IDENT_PHASE_SCAN_CORE_NEXT_BASIC :: nat where "CMD_IDENT_PHASE_SCAN_CORE_NEXT_BASIC = 3"
definition CMD_IDENT_PHASE_SCAN_CORE_NEXT_EXTENDED :: nat where "CMD_IDENT_PHASE_SCAN_CORE_NEXT_EXTENDED = 4"
definition CMD_IDENT_PHASE_SCAN_POST :: nat where "CMD_IDENT_PHASE_SCAN_POST = 5"
definition CMD_IDENT_PHASE_END :: nat where "CMD_IDENT_PHASE_END = CMD_IDENT_PHASE_SCAN_POST"
definition CMD_IDENT_PHASE_TRIGGER_ACTION_CURRENT :: nat where "CMD_IDENT_PHASE_TRIGGER_ACTION_CURRENT = 6"
definition CMD_IDENT_TRIGGER_ACTION_START :: nat where
  "CMD_IDENT_TRIGGER_ACTION_START = CMD_IDENT_PHASE_TRIGGER_ACTION_CURRENT"
definition CMD_IDENT_PHASE_TRIGGER_ACTION_NEXT :: nat where "CMD_IDENT_PHASE_TRIGGER_ACTION_NEXT = 7"
definition CMD_IDENT_TRIGGER_ACTION_END :: nat where
  "CMD_IDENT_TRIGGER_ACTION_END = CMD_IDENT_PHASE_TRIGGER_ACTION_NEXT"
definition CMD_IDENT_PHASE_ERROR :: nat where "CMD_IDENT_PHASE_ERROR = 8"

lemmas cmd_ident_phase_t_defs =
  CMD_IDENT_PHASE_START_def CMD_IDENT_PHASE_IDENT_def CMD_IDENT_PHASE_SCAN_PRE_def
  CMD_IDENT_PHASE_SCAN_CORE_CURRENT_def CMD_IDENT_PHASE_SCAN_CORE_NEXT_BASIC_def
  CMD_IDENT_PHASE_SCAN_CORE_NEXT_EXTENDED_def CMD_IDENT_PHASE_SCAN_POST_def
  CMD_IDENT_PHASE_END_def CMD_IDENT_PHASE_TRIGGER_ACTION_CURRENT_def
  CMD_IDENT_TRIGGER_ACTION_START_def CMD_IDENT_PHASE_TRIGGER_ACTION_NEXT_def
  CMD_IDENT_TRIGGER_ACTION_END_def CMD_IDENT_PHASE_ERROR_def

subsection \<open>The command resource\<close>

text \<open>
  Modelled from the spec: the framed buffer is not among the sources. A
  command's result buffer is created with \<^verbatim>\<open>BUFFER_TYPE_VECTOR\<close>, and
  the spec says of that shape that an append records a \<open>(ptr, len)\<close> entry
  in an iovec array, which \<^verbatim>\<open>writev\<close> later writes. So
  \<^verbatim>\<open>buffer_add\<close> keeps the address it was given, and
  \<^verbatim>\<open>buffer_write\<close> sends what stands at that address when it is called.
  The two objects the handlers hand over are the handler's local
  \<^verbatim>\<open>response_header\<close> and the static \<^verbatim>\<open>this_version\<close>.
\<close>

datatype mem_ref = REF_response_header | REF_this_version

record iovec =
  iov_base :: mem_ref
  iov_len :: nat

datatype mem_obj = OBJ_header raw_command_header | OBJ_version version

definition buffer_add :: "iovec list \<Rightarrow> mem_ref \<Rightarrow> nat \<Rightarrow> iovec list" where
  "buffer_add buf p n = buf @ [\<lparr>iov_base = p, iov_len = n\<rparr>]"

definition buffer_write :: "iovec list \<Rightarrow> (mem_ref \<Rightarrow> mem_obj) \<Rightarrow> mem_obj list" where
  "buffer_write buf mem = map (\<lambda>v. mem (iov_base v)) buf"

text \<open>
  \<^verbatim>\<open>struct command\<close>; \<open>cmd_protocol\<close>, \<open>cmd_type\<close> and \<open>cmd_status\<close>
  are its fields \<^verbatim>\<open>protocol\<close>, \<^verbatim>\<open>type\<close> and \<^verbatim>\<open>status\<close>. The
  event source \<^verbatim>\<open>es\<close> is the registration of \<^verbatim>\<open>_cmd_handler\<close> and
  has no field in the model.
\<close>

record command =
  cmd_protocol :: "8 word"
  cmd_type :: nat
  cmd_status :: "16 word"
  dev :: device
  result_buf :: "iovec list"

text \<open>
  Messages of the log facade, each with the id of the resource it is logged
  for (the source passes \<^verbatim>\<open>ID(res)\<close>) and, for
  \<^verbatim>\<open>log_error_errno\<close>, the error number.
\<close>

datatype log_entry =
    LOG_debug string string
  | LOG_error string string
  | LOG_error_errno string int string
  | LOG_sys_error string string string

text \<open>
  A command resource as the functions below see it: its id, its data and the
  messages logged so far.
\<close>

record cmd_res =
  res_id :: string
  cmd :: command
  logged :: "log_entry list"

definition log_debug :: "cmd_res \<Rightarrow> string \<Rightarrow> cmd_res" where
  "log_debug res msg = res\<lparr>logged := logged res @ [LOG_debug (res_id res) msg]\<rparr>"

definition log_error :: "cmd_res \<Rightarrow> string \<Rightarrow> cmd_res" where
  "log_error res msg = res\<lparr>logged := logged res @ [LOG_error (res_id res) msg]\<rparr>"

definition log_error_errno :: "cmd_res \<Rightarrow> int \<Rightarrow> string \<Rightarrow> cmd_res" where
  "log_error_errno res r msg = res\<lparr>logged := logged res @ [LOG_error_errno (res_id res) r msg]\<rparr>"

record command_reg =
  reg_name :: string
  execute :: "cmd_res \<Rightarrow> int \<times> cmd_res"

subsection \<open>Executing commands\<close>

definition parse_cmd_nullstr_udev_env :: "command \<Rightarrow> int \<times> command" where
  "parse_cmd_nullstr_udev_env c = (let rd = parse_loop 0 (dev c) in (fst rd, c\<lparr>dev := snd rd\<rparr>))"

definition init_device :: "cmd_res \<Rightarrow> int \<times> cmd_res" where
  "init_device res =
     (let rc = parse_cmd_nullstr_udev_env (cmd res);
          r = fst rc;
          res1 = res\<lparr>cmd := snd rc\<rparr>
      in if r < 0
         then (- 1, log_error_errno res1 r ''Failed to parse udev environment variables.'')
         else (0, res1))"

definition cmd_execute_unknown :: "cmd_res \<Rightarrow> int \<times> cmd_res" where
  "cmd_execute_unknown res = (0, res)"

definition cmd_execute_reply :: "cmd_res \<Rightarrow> int \<times> cmd_res" where
  "cmd_execute_reply res = (0, res)"

definition cmd_execute_version :: "cmd_res \<Rightarrow> int \<times> cmd_res" where
  "cmd_execute_version res =
     (0, res\<lparr>cmd := (cmd res)\<lparr>result_buf :=
            buffer_add (result_buf (cmd res)) REF_this_version sizeof_version\<rparr>\<rparr>)"

definition cmd_execute_identify_ident :: "cmd_res \<Rightarrow> int \<times> cmd_res" where
  "cmd_execute_identify_ident res = (0, res)"

definition cmd_execute_identify_scan_pre :: "cmd_res \<Rightarrow> int \<times> cmd_res" where
  "cmd_execute_identify_scan_pre res = (0, res)"

definition cmd_execute_identify_scan_core_current :: "cmd_res \<Rightarrow> int \<times> cmd_res" where
  "cmd_execute_identify_scan_core_current res = (0, res)"

definition cmd_execute_identify_scan_core_next_basic :: "cmd_res \<Rightarrow> int \<times> cmd_res" where
  "cmd_execute_identify_scan_core_next_basic res = (0, res)"

definition cmd_execute_identify_scan_core_next_extended :: "cmd_res \<Rightarrow> int \<times> cmd_res" where
  "cmd_execute_identify_scan_core_next_extended res = (0, res)"

definition cmd_execute_identify_scan_post :: "cmd_res \<Rightarrow> int \<times> cmd_res" where
  "cmd_execute_identify_scan_post res = (0, res)"

definition cmd_ident_phase_regs :: "command_reg list" where
  "cmd_ident_phase_regs =
     [\<lparr>reg_name = ''ident'', execute = cmd_execute_identify_ident\<rparr>,
      \<lparr>reg_name = ''scan-pre'', execute = cmd_execute_identify_scan_pre\<rparr>,
      \<lparr>reg_name = ''scan-core-current'', execute = cmd_execute_identify_scan_core_current\<rparr>,
      \<lparr>reg_name = ''scan-core-next-basic'', execute = cmd_execute_identify_scan_core_next_basic\<rparr>,
      \<lparr>reg_name = ''scan-core-next-extended'', execute = cmd_execute_identify_scan_core_next_extended\<rparr>,
      \<lparr>reg_name = ''scan-post'', execute = cmd_execute_identify_scan_post\<rparr>]"

text \<open>
  The \<^verbatim>\<open>for\<close> loop of \<^verbatim>\<open>_cmd_execute_identify\<close> over a phase table
  \<open>regs\<close>: \<open>phase\<close> is its counter and \<open>r\<close> the value of the variable
  \<^verbatim>\<open>r\<close> on entry.
\<close>

function ident_phase_loop :: "command_reg list \<Rightarrow> nat \<Rightarrow> int \<Rightarrow> cmd_res \<Rightarrow> int \<times> cmd_res" where
  "ident_phase_loop regs phase r res =
     (if phase \<le> CMD_IDENT_PHASE_END then
        (let res1 = log_debug res (''Executing '' @ reg_name (regs ! phase) @ '' phase.'');
             rr = execute (regs ! phase) res1
         in if fst rr < 0
            then (fst rr, log_error (snd rr) (reg_name (regs ! phase) @ '' phase failed.''))
            else ident_phase_loop regs (phase + 1) (fst rr) (snd rr))
      else (r, res))"
  by pat_completeness auto
termination
  by (relation "measure (\<lambda>(regs, phase, r, res). Suc CMD_IDENT_PHASE_END - phase)") auto

declare ident_phase_loop.simps [simp del]

text \<open>
  \<^verbatim>\<open>_cmd_execute_identify\<close>, the phase table being an argument. Its first
  statement is \<^verbatim>\<open>if ((r = _init_device(cmd_res) < 0)) return r;\<close>: the
  comparison binds tighter than the assignment, so \<open>r\<close> receives the truth
  value of \<^verbatim>\<open>_init_device(cmd_res) < 0\<close>, 1 or 0.
\<close>

definition cmd_execute_identify_regs :: "command_reg list \<Rightarrow> cmd_res \<Rightarrow> int \<times> cmd_res" where
  "cmd_execute_identify_regs regs res =
     (let rd = init_device res;
          r = (if fst rd < 0 then 1 else 0)
      in if r \<noteq> 0 then (r, snd rd)
         else ident_phase_loop regs CMD_IDENT_PHASE_START r (snd rd))"

definition cmd_execute_identify :: "cmd_res \<Rightarrow> int \<times> cmd_res" where
  "cmd_execute_identify = cmd_execute_identify_regs cmd_ident_phase_regs"

definition cmd_execute_checkpoint :: "cmd_res \<Rightarrow> int \<times> cmd_res" where
  "cmd_execute_checkpoint res = (0, res)"

definition command_regs :: "command_reg list" where
  "command_regs =
     [\<lparr>reg_name = ''unknown'', execute = cmd_execute_unknown\<rparr>,
      \<lparr>reg_name = ''reply'', execute = cmd_execute_reply\<rparr>,
      \<lparr>reg_name = ''version'', execute = cmd_execute_version\<rparr>,
      \<lparr>reg_name = ''identify'', execute = cmd_execute_identify\<rparr>,
      \<lparr>reg_name = ''checkpoint'', execute = cmd_execute_checkpoint\<rparr>]"

text \<open>
  \<^verbatim>\<open>_cmd_handler\<close>, the command table being an argument and
  \<open>this_version\<close> the value of the static \<^verbatim>\<open>this_version\<close> (the
  \<^verbatim>\<open>SID_VERSION\<close> macros come from the build). The header is handed to
  the buffer before it is filled in; \<open>hr_response_header\<close> is the local
  \<^verbatim>\<open>response_header\<close> as it stands at \<^verbatim>\<open>buffer_write\<close>, and
  \<open>hr_written\<close> what that call sends to the connection.
\<close>

record handler_result =
  hr_ret :: int
  hr_res :: cmd_res
  hr_response_header :: raw_command_header
  hr_written :: "mem_obj list"

definition cmd_handler_regs :: "command_reg list \<Rightarrow> version \<Rightarrow> cmd_res \<Rightarrow> handler_result" where
  "cmd_handler_regs regs this_version res =
     (let response_header = \<lparr>protocol = 0, cmd_number = 0, status = 0, data = []\<rparr>;
          res1 = res\<lparr>cmd := (cmd res)\<lparr>result_buf :=
                   buffer_add (result_buf (cmd res)) REF_response_header sizeof_raw_command_header\<rparr>\<rparr>;
          supported = (cmd_protocol (cmd res1) \<le> UBRIDGE_PROTOCOL);
          response_header1 =
            (if supported then response_header\<lparr>protocol := cmd_protocol (cmd res1)\<rparr>
             else response_header);
          rr = (if supported
                then (let ex = execute (regs ! cmd_type (cmd res1)) res1
                      in if fst ex < 0
                         then (fst ex, log_error_errno (snd ex) (fst ex) ''Failed to execute command'')
                         else ex)
                else (- 1, res1));
          response_header2 =
            (if fst rr < 0
             then response_header1\<lparr>status := status response_header1 OR COMMAND_STATUS_FAILURE\<rparr>
             else response_header1);
          mem = (\<lambda>p. case p of
                   REF_response_header \<Rightarrow> OBJ_header response_header2
                 | REF_this_version \<Rightarrow> OBJ_version this_version)
      in \<lparr>hr_ret = fst rr, hr_res = snd rr, hr_response_header = response_header2,
          hr_written = buffer_write (result_buf (cmd (snd rr))) mem\<rparr>)"

definition cmd_handler :: "version \<Rightarrow> cmd_res \<Rightarrow> handler_result" where
  "cmd_handler = cmd_handler_regs command_regs"

subsection \<open>Registering a command\<close>

text \<open>
  The outcomes of the four calls that \<^verbatim>\<open>_init_command\<close> tests:
  \<^verbatim>\<open>zalloc\<close>, \<^verbatim>\<open>buffer_create\<close>, \<^verbatim>\<open>malloc\<close> and
  \<^verbatim>\<open>sid_resource_create_deferred_event_source\<close>.
\<close>

record create_env =
  zalloc_ok :: bool
  buffer_create_ok :: bool
  malloc_ok :: bool
  event_source_ok :: bool

definition zeroed_device :: device where
  "zeroed_device =
     \<lparr>action = UDEV_ACTION_UNKNOWN, major = 0, minor = 0, name = None, type = None,
      seqnum = 0, synth_uuid = None, raw_udev_env = []\<rparr>"

text \<open>
  \<^verbatim>\<open>_init_command\<close>: \<open>None\<close> is the return value \<open>-1\<close>, \<open>Some\<close> the
  command stored through \<^verbatim>\<open>data\<close> with return value 0; the messages
  logged come first. \<open>rid\<close> is the id of the resource being created.
  \<^verbatim>\<open>raw_cmd->len - sizeof(struct raw_command_header)\<close> is computed in
  \<^verbatim>\<open>size_t\<close>: for a length below the header's size it wraps around to
  at least \<open>2 ^ 64 - 10\<close>, a size that \<^verbatim>\<open>malloc\<close> never grants, so
  the allocation of the environment fails there whatever \<open>malloc_ok\<close> says.
\<close>

definition init_command :: "create_env \<Rightarrow> string \<Rightarrow> raw_command \<Rightarrow> log_entry list \<times> command option" where
  "init_command env rid raw_cmd =
     (if \<not> zalloc_ok env
      then ([LOG_error rid ''Failed to allocate new command structure.''], None)
      else if \<not> buffer_create_ok env
      then ([LOG_error rid ''Failed to create response buffer.''], None)
      else if len raw_cmd < sizeof_raw_command_header \<or> \<not> malloc_ok env
      then ([LOG_error rid ''Failed to allocate memory for command's environment variables.''], None)
      else if \<not> event_source_ok env
      then ([LOG_error rid ''Failed to register command handler.''], None)
      else ([], Some
             \<lparr>cmd_protocol = protocol (header raw_cmd),
              cmd_type = unat (cmd_number (header raw_cmd)),
              cmd_status = ucast (status (header raw_cmd)),
              dev = zeroed_device\<lparr>raw_udev_env :=
                      take (len raw_cmd - sizeof_raw_command_header) (data (header raw_cmd))\<rparr>,
              result_buf = []\<rparr>))"

text \<open>
  Modelled from the spec: \<^verbatim>\<open>sid_resource_create\<close> is not among the
  sources. The spec says that create allocates the node, invokes the type's
  init with the kickstart data, and fails when init fails. For the command
  type the init is \<^verbatim>\<open>_init_command\<close>; the new resource carries the id it
  was created with and has logged nothing yet.
\<close>

definition sid_resource_create_command ::
    "create_env \<Rightarrow> string \<Rightarrow> raw_command \<Rightarrow> log_entry list \<times> cmd_res option" where
  "sid_resource_create_command env rid raw_cmd =
     (let ic = init_command env rid raw_cmd
      in (fst ic, map_option (\<lambda>c. \<lparr>res_id = rid, cmd = c, logged = []\<rparr>) (snd ic)))"

text \<open>\<^verbatim>\<open>%d\<close> of a process id, which is positive.\<close>

fun string_of_nat :: "nat \<Rightarrow> string" where
  "string_of_nat n =
     (if n < 10 then [char_of (48 + n)]
      else string_of_nat (n div 10) @ [char_of (48 + n mod 10)])"

declare string_of_nat.simps [simp del]

text \<open>
  The branch of \<^verbatim>\<open>_on_worker_conn_event\<close> that is taken when
  \<^verbatim>\<open>buffer_read\<close> has returned a positive count and the buffer holds a
  complete frame. \<open>raw_stream\<close> is the frame after its length prefix, read
  as a \<^verbatim>\<open>struct raw_command_header\<close> followed by its data; a frame shorter
  than the header is outside the model. \<open>worker_id\<close> is the id of the
  worker resource and \<open>pid\<close> the value of \<^verbatim>\<open>getpid()\<close>. The id,
  \<open>rid\<close> below, is written by \<^verbatim>\<open>snprintf(id, sizeof(id) - 1, ...)\<close>
  into 32 bytes, which keeps 30 characters. The command is created from a
  copy of the frame, so the reset of the worker's buffer that ends the
  branch does not reach it; the worker's buffer has no part in the model.
\<close>

record conn_event_result =
  ce_ret :: int
  ce_raw_cmd :: raw_command
  ce_id :: string
  ce_created :: "cmd_res option"
  ce_logged :: "log_entry list"

definition on_worker_conn_event_frame ::
    "string \<Rightarrow> nat \<Rightarrow> create_env \<Rightarrow> raw_command_header \<Rightarrow> conn_event_result" where
  "on_worker_conn_event_frame worker_id pid env raw_stream =
     (let raw_cmd = \<lparr>header = raw_stream,
                     len = sizeof_raw_command_header + length (data raw_stream)\<rparr>;
          n = unat (cmd_number (header raw_cmd));
          raw_cmd1 = (if n \<le> CMD_START \<or> CMD_END \<le> n
                      then raw_cmd\<lparr>header := (header raw_cmd)\<lparr>cmd_number := word_of_nat CMD_UNKNOWN\<rparr>\<rparr>
                      else raw_cmd);
          rid = take 30 (string_of_nat pid @ ''/'' @
                 reg_name (command_regs ! unat (cmd_number (header raw_cmd1))));
          cr = sid_resource_create_command env rid raw_cmd1
      in \<lparr>ce_ret = 0, ce_raw_cmd = raw_cmd1, ce_id = rid, ce_created = snd cr,
          ce_logged = fst cr @
            (case snd cr of
               None \<Rightarrow> [LOG_error worker_id ''Failed to register command for processing.'']
             | Some _ \<Rightarrow> [])\<rparr>)"

text \<open>
  A registered command schedules a deferred event source; the worker's event
  loop runs it once, on its next iteration, and that run is
  \<^verbatim>\<open>_cmd_handler\<close>. \<open>None\<close>: no command was registered, nothing is
  written.
\<close>

definition worker_serve_frame ::
    "string \<Rightarrow> nat \<Rightarrow> create_env \<Rightarrow> version \<Rightarrow> raw_command_header \<Rightarrow> handler_result option" where
  "worker_serve_frame worker_id pid env this_version raw_stream =
     map_option (cmd_handler this_version)
       (ce_created (on_worker_conn_event_frame worker_id pid env raw_stream))"

subsection \<open>The observer\<close>

datatype worker_state_t = WORKER_IDLE | WORKER_INIT | WORKER_RUNNING | WORKER_FINI

datatype clockid_t = CLOCK_REALTIME | CLOCK_MONOTONIC

definition SIGTERM :: nat where
  "SIGTERM = 15"

text \<open>
  A time event source as \<^verbatim>\<open>sid_resource_create_time_event_source\<close> is
  asked for it: the clock and the absolute time in microseconds. The only
  handler the source registers for one is \<^verbatim>\<open>_on_idle_task_timeout_event\<close>.
\<close>

record time_event_source =
  es_clock :: clockid_t
  es_usec :: "64 word"

text \<open>
  \<^verbatim>\<open>struct observer\<close>. \<^verbatim>\<open>comms_es\<close> and \<^verbatim>\<open>child_es\<close> are set
  when the observer is created and not touched by the handlers below; they
  have no field in the model. An event source pointer that is
  \<^verbatim>\<open>NULL\<close> is \<open>None\<close>.
\<close>

record observer =
  worker_pid :: nat
  comms_fd :: int
  idle_timeout_es :: "time_event_source option"
  worker_state :: worker_state_t

text \<open>System calls that the handlers make for their effect.\<close>

datatype sys_call = SYS_kill nat nat | SYS_close int | SYS_send_fd int int

text \<open>
  An observer resource: its id, its data, the messages logged and the system
  calls made so far.
\<close>

record observer_res =
  obs_id :: string
  obs :: observer
  obs_logged :: "log_entry list"
  obs_calls :: "sys_call list"

definition on_idle_task_timeout_event :: "observer_res \<Rightarrow> int \<times> observer_res" where
  "on_idle_task_timeout_event res =
     (0, res\<lparr>obs := (obs res)\<lparr>worker_state := WORKER_FINI\<rparr>,
             obs_logged := obs_logged res @
               [LOG_debug (obs_id res) ''Idle timeout expired.'',
                LOG_debug (obs_id res) ''Worker state changed to WORKER_FINI.''],
             obs_calls := obs_calls res @ [SYS_kill (worker_pid (obs res)) SIGTERM]\<rparr>)"

text \<open>
  \<^verbatim>\<open>_on_observer_comms_event\<close>. \<open>recv_ret\<close> is what
  \<^verbatim>\<open>comms_unix_recv\<close> returned, \<open>buf0\<close> the byte it left in
  \<^verbatim>\<open>buf[0]\<close> and \<open>now\<close> the reading of \<^verbatim>\<open>util_get_now_usec\<close>.
  The result of the timer's creation is dropped by the source.
\<close>

definition on_observer_comms_event ::
    "int \<Rightarrow> 8 word \<Rightarrow> (clockid_t \<Rightarrow> 64 word) \<Rightarrow> observer_res \<Rightarrow> int \<times> observer_res" where
  "on_observer_comms_event recv_ret buf0 now res =
     (if recv_ret < 0 then (- 1, res)
      else if buf0 = INTERNAL_COMMS_CMD_RUNNING
      then (0, res\<lparr>obs := (obs res)\<lparr>worker_state := WORKER_RUNNING\<rparr>,
                   obs_logged := obs_logged res @
                     [LOG_debug (obs_id res) ''Worker state changed to WORKER_RUNNING.'']\<rparr>)
      else if buf0 = INTERNAL_COMMS_CMD_IDLE
      then (let timeout_usec = now CLOCK_MONOTONIC + WORKER_IDLE_TIMEOUT_USEC
            in (0, res\<lparr>obs := (obs res)
                         \<lparr>idle_timeout_es :=
                            Some \<lparr>es_clock = CLOCK_MONOTONIC, es_usec = timeout_usec\<rparr>,
                          worker_state := WORKER_IDLE\<rparr>,
                       obs_logged := obs_logged res @
                         [LOG_debug (obs_id res) ''Worker state changed to WORKER_IDLE.'']\<rparr>))
      else (0, res))"

text \<open>
  \<^verbatim>\<open>struct ubridge\<close> with the id of its resource, and
  \<^verbatim>\<open>_accept_connection_and_pass_to_worker\<close>. \<open>conn_fd\<close> is what
  \<^verbatim>\<open>accept4\<close> returned and \<open>send_ret\<close> what \<^verbatim>\<open>comms_unix_send\<close>
  returned; a resource pointer that is \<^verbatim>\<open>NULL\<close> is \<open>None\<close>.
  \<^verbatim>\<open>sid_resource_destroy_event_source\<close> leaves the pointer it is given
  \<^verbatim>\<open>NULL\<close>.
\<close>

record ubridge_res =
  ub_id :: string
  socket_fd :: int

definition accept_connection_and_pass_to_worker ::
    "int \<Rightarrow> int \<Rightarrow> ubridge_res option \<Rightarrow> observer_res option \<Rightarrow> int \<times> observer_res option" where
  "accept_connection_and_pass_to_worker conn_fd send_ret ubridge observer_r =
     (case ubridge of
        None \<Rightarrow> (- 1, observer_r)
      | Some ub \<Rightarrow>
         (case observer_r of
            None \<Rightarrow> (- 1, None)
          | Some res \<Rightarrow>
              if conn_fd < 0
              then (- 1, Some (res\<lparr>obs_logged := obs_logged res @
                                 [LOG_sys_error (ub_id ub) ''accept'' []]\<rparr>))
              else if send_ret < 0
              then (- 1, Some (res\<lparr>obs_logged := obs_logged res @
                                 [LOG_sys_error (ub_id ub) ''comms_unix_send'' []],
                               obs_calls := obs_calls res @ [SYS_close conn_fd]\<rparr>))
              else (0, Some (res\<lparr>obs := (obs res)\<lparr>idle_timeout_es := None,
                                                   worker_state := WORKER_INIT\<rparr>,
                                 obs_logged := obs_logged res @
                                   [LOG_debug (obs_id res) ''Worker state changed to WORKER_INIT.''],
                                 obs_calls := obs_calls res @
                                   [SYS_send_fd (comms_fd (obs res)) conn_fd, SYS_close conn_fd]\<rparr>))))"

subsection \<open>The worker's side of the control channel\<close>

text \<open>
  \<^verbatim>\<open>struct kickstart\<close>, and \<^verbatim>\<open>_init_observer\<close> with the outcomes of
  the three calls it tests (\<^verbatim>\<open>zalloc\<close> and the creation of the child and
  of the channel event source): \<open>None\<close> is the return value \<open>-1\<close>. The
  structure is zeroed, so a new observer has no idle-timeout event source.
\<close>

record kickstart =
  ks_worker_pid :: nat
  ks_comms_fd :: int

definition init_observer ::
    "bool \<Rightarrow> bool \<Rightarrow> bool \<Rightarrow> string \<Rightarrow> kickstart \<Rightarrow> log_entry list \<times> observer option" where
  "init_observer zalloc_succeeds child_es_ok comms_es_ok rid ks =
     (if \<not> zalloc_succeeds
      then ([LOG_error rid ''Failed to allocate new observer structure.''], None)
      else if \<not> child_es_ok
      then ([LOG_error rid ''Failed to register child process monitoring.''], None)
      else if \<not> comms_es_ok
      then ([LOG_error rid ''Failed to register worker <-> observer channel.''], None)
      else ([], Some \<lparr>worker_pid = ks_worker_pid ks, comms_fd = ks_comms_fd ks,
                       idle_timeout_es = None, worker_state = WORKER_IDLE\<rparr>))"

text \<open>
  \<^verbatim>\<open>struct worker\<close>, with the fields that the two functions below use:
  its end of the channel, the connection and the event source on the
  connection, which is \<open>Some\<close> of the descriptor it watches. The signal
  and channel event sources and the buffer have no field in the model.
  \<^verbatim>\<open>_init_worker\<close> tests \<^verbatim>\<open>zalloc\<close>, the two signal event sources,
  the channel event source and \<^verbatim>\<open>buffer_create\<close>.
\<close>

record worker =
  wk_comms_fd :: int
  conn_fd :: int
  conn_es :: "int option"

definition init_worker ::
    "bool \<Rightarrow> bool \<Rightarrow> bool \<Rightarrow> bool \<Rightarrow> string \<Rightarrow> kickstart \<Rightarrow> log_entry list \<times> worker option" where
  "init_worker zalloc_succeeds signal_es_ok comms_es_ok buffer_ok rid ks =
     (if \<not> zalloc_succeeds
      then ([LOG_error rid ''Failed to allocate new worker structure.''], None)
      else if \<not> signal_es_ok
      then ([LOG_error rid ''Failed to create signal handlers.''], None)
      else if \<not> comms_es_ok
      then ([LOG_error rid ''Failed to register worker <-> observer channel.''], None)
      else if \<not> buffer_ok
      then ([LOG_error rid ''Failed to create buffer for connection.''], None)
      else ([], Some \<lparr>wk_comms_fd = ks_comms_fd ks, conn_fd = - 1, conn_es = None\<rparr>))"

text \<open>
  \<^verbatim>\<open>_on_worker_comms_event\<close>: the worker receives a descriptor, registers
  the connection and reports RUNNING. \<open>recv_ret\<close> and \<open>fd_received\<close> are
  what \<^verbatim>\<open>comms_unix_recv\<close> gave, \<open>es_ok\<close> says whether the event source
  on the connection was created, and \<open>send_ret\<close> is what
  \<^verbatim>\<open>comms_unix_send\<close> returned. The third component of the result is
  what the call put on the channel to the observer. \<^verbatim>\<open>comms_unix_send\<close>
  is not among the sources, and the source tests its result in two ways
  (\<^verbatim>\<open>< 0\<close> here and there, \<^verbatim>\<open>!\<close> in this function); whether the byte
  went out is therefore an outcome of its own, \<open>delivered\<close>, so that
  nothing rests on a reading of the return value.
\<close>

definition on_worker_comms_event ::
    "int \<Rightarrow> int \<Rightarrow> bool \<Rightarrow> int \<Rightarrow> bool \<Rightarrow> worker \<Rightarrow> int \<times> worker \<times> 8 word list" where
  "on_worker_comms_event recv_ret fd_received es_ok send_ret delivered w =
     (if recv_ret < 0 then (- 1, w, [])
      else if fd_received \<noteq> - 1
      then (let w1 = w\<lparr>conn_fd := fd_received\<rparr>
            in if \<not> es_ok then (- 1, w1, [])
               else (let w2 = w1\<lparr>conn_es := Some fd_received\<rparr>;
                         sent = (if delivered then [INTERNAL_COMMS_CMD_RUNNING] else [])
                     in if send_ret = 0 then (- 1, w2, sent) else (0, w2, sent)))
      else (0, w, []))"

text \<open>
  \<^verbatim>\<open>_worker_cleanup\<close>: the worker destroys its commands and the event
  source on the connection, resets its buffer and reports IDLE. \<open>iter_ok\<close>
  says whether \<^verbatim>\<open>sid_resource_iter_create\<close> gave an iterator; without
  one the function returns before anything is done. The commands and the
  buffer have no part in this model.
\<close>

definition worker_cleanup ::
    "bool \<Rightarrow> int \<Rightarrow> bool \<Rightarrow> worker \<Rightarrow> int \<times> worker \<times> 8 word list" where
  "worker_cleanup iter_ok send_ret delivered w =
     (if \<not> iter_ok then (- 1, w, [])
      else (let w1 = w\<lparr>conn_es := None\<rparr>;
                sent = (if delivered then [INTERNAL_COMMS_CMD_IDLE] else [])
            in if send_ret = 0 then (- 1, w1, sent) else (0, w1, sent)))"

subsection \<open>An observer and its worker\<close>

text \<open>
  The two processes and the socket pair between them: the descriptors that
  the observer has passed and the worker has not received yet, and the
  control bytes that the worker has sent and the observer has not received
  yet. A datagram socket pair keeps the order of its messages.
\<close>

record system =
  sys_observer :: observer_res
  sys_worker :: worker
  to_worker :: "int list"
  to_observer :: "8 word list"

text \<open>
  The steps of the system, each one run of a handler of the source.
  \<^item> \<open>observer_accepts\<close>: \<^verbatim>\<open>_accept_connection_and_pass_to_worker\<close>; the
    descriptor is on its way when the function returned 0.
  \<^item> \<open>worker_receives\<close>: \<^verbatim>\<open>_on_worker_comms_event\<close> on the next
    descriptor.
  \<^item> \<open>worker_cleans_up\<close>: \<^verbatim>\<open>_worker_cleanup\<close>.
  \<^item> \<open>observer_receives\<close>: \<^verbatim>\<open>_on_observer_comms_event\<close> on the next
    control byte.
  \<^item> \<open>idle_timeout_fires\<close>: \<^verbatim>\<open>_on_idle_task_timeout_event\<close>.
\<close>

definition observer_accepts :: "int \<Rightarrow> int \<Rightarrow> ubridge_res \<Rightarrow> system \<Rightarrow> system" where
  "observer_accepts fd send_ret ub s =
     (let ra = accept_connection_and_pass_to_worker fd send_ret (Some ub)
                 (Some (sys_observer s))
      in case snd ra of
           None \<Rightarrow> s
         | Some res \<Rightarrow>
             s\<lparr>sys_observer := res,
               to_worker := to_worker s @ (if fst ra = 0 then [fd] else [])\<rparr>)"

definition worker_receives :: "bool \<Rightarrow> int \<Rightarrow> bool \<Rightarrow> system \<Rightarrow> system" where
  "worker_receives es_ok send_ret delivered s =
     (case to_worker s of
        [] \<Rightarrow> s
      | fd # fds \<Rightarrow>
          (let rw = on_worker_comms_event 0 fd es_ok send_ret delivered (sys_worker s)
           in s\<lparr>sys_worker := fst (snd rw), to_worker := fds,
                to_observer := to_observer s @ snd (snd rw)\<rparr>))"

definition worker_cleans_up :: "bool \<Rightarrow> int \<Rightarrow> bool \<Rightarrow> system \<Rightarrow> system" where
  "worker_cleans_up iter_ok send_ret delivered s =
     (let rw = worker_cleanup iter_ok send_ret delivered (sys_worker s)
      in s\<lparr>sys_worker := fst (snd rw), to_observer := to_observer s @ snd (snd rw)\<rparr>)"

definition observer_receives :: "int \<Rightarrow> (clockid_t \<Rightarrow> 64 word) \<Rightarrow> system \<Rightarrow> system" where
  "observer_receives recv_ret now s =
     (case to_observer s of
        [] \<Rightarrow> s
      | b # bs \<Rightarrow>
          s\<lparr>sys_observer := snd (on_observer_comms_event recv_ret b now (sys_observer s)),
            to_observer := bs\<rparr>)"

definition idle_timeout_fires :: "system \<Rightarrow> system" where
  "idle_timeout_fires s = s\<lparr>sys_observer := snd (on_idle_task_timeout_event (sys_observer s))\<rparr>"

text \<open>
  The states an observer and its worker can reach. They start as
  \<^verbatim>\<open>_spawn_worker\<close> leaves them, the observer from \<^verbatim>\<open>_init_observer\<close>
  and the worker from \<^verbatim>\<open>_init_worker\<close>, with nothing on the channel.
  Each handler runs when the source lets it run, with any outcome of the
  calls it tests, and also after a handler has returned a negative value
  (the event loop may stop calling it then, which only removes steps):
  \<^item> a connection is passed only to an observer whose \<open>worker_state\<close> is
    \<open>WORKER_IDLE\<close>: \<^verbatim>\<open>_on_ubridge_interface_event\<close> takes the observer
    from \<^verbatim>\<open>_find_observer_for_idle_worker\<close>, or a new one, which starts
    in that state;
  \<^item> \<^verbatim>\<open>_worker_cleanup\<close> is called only from
    \<^verbatim>\<open>_on_worker_conn_event\<close>, the handler of the event source on the
    connection, so only while that event source exists;
  \<^item> the timeout handler runs only for an idle-timeout event source that
    exists (a timer that has fired keeps its pointer, so the rule lets it
    fire again: more behaviour than the program has, never less).
\<close>

inductive reachable :: "system \<Rightarrow> bool" where
  spawned:
    "init_observer zo co io rid ks = (lo, Some ob) \<Longrightarrow>
     init_worker zw sw cw bw wid kw = (lw, Some w) \<Longrightarrow>
     reachable \<lparr>sys_observer = \<lparr>obs_id = rid, obs = ob, obs_logged = [], obs_calls = []\<rparr>,
                sys_worker = w, to_worker = [], to_observer = []\<rparr>"
| accepts:
    "reachable s \<Longrightarrow> worker_state (obs (sys_observer s)) = WORKER_IDLE \<Longrightarrow>
     reachable (observer_accepts fd send_ret ub s)"
| worker_receives:
    "reachable s \<Longrightarrow> reachable (worker_receives es_ok send_ret delivered s)"
| worker_cleans_up:
    "reachable s \<Longrightarrow> conn_es (sys_worker s) \<noteq> None \<Longrightarrow>
     reachable (worker_cleans_up iter_ok send_ret delivered s)"
| observer_receives:
    "reachable s \<Longrightarrow> 0 \<le> recv_ret \<Longrightarrow> reachable (observer_receives recv_ret now s)"
| idle_timeout_fires:
    "reachable s \<Longrightarrow> idle_timeout_es (obs (sys_observer s)) \<noteq> None \<Longrightarrow>
     reachable (idle_timeout_fires s)"

text \<open>
  The two kinds of reachable state. While a connection is being served the
  observer is in INIT or RUNNING and has no idle timer; one descriptor is on
  its way, or the channel to the observer holds what is left of RUNNING
  followed by IDLE, RUNNING only while the observer is in INIT and IDLE
  only once the worker has dropped the connection. Otherwise the observer
  is in IDLE or FINI, the channel is empty and the worker has no connection.
\<close>

definition serving :: "system \<Rightarrow> bool" where
  "serving s =
     (let ob = obs (sys_observer s); fo = to_observer s
      in (worker_state ob = WORKER_INIT \<or> worker_state ob = WORKER_RUNNING) \<and>
         idle_timeout_es ob = None \<and>
         ((\<exists>fd. to_worker s = [fd]) \<and> fo = [] \<and> conn_es (sys_worker s) = None \<and>
            worker_state ob = WORKER_INIT
          \<or> to_worker s = [] \<and>
            (fo = [] \<or> fo = [INTERNAL_COMMS_CMD_RUNNING] \<and> worker_state ob = WORKER_INIT
             \<or> (fo = [INTERNAL_COMMS_CMD_IDLE]
                 \<or> fo = [INTERNAL_COMMS_CMD_RUNNING, INTERNAL_COMMS_CMD_IDLE] \<and>
                   worker_state ob = WORKER_INIT) \<and> conn_es (sys_worker s) = None)))"

definition resting :: "system \<Rightarrow> bool" where
  "resting s =
     ((worker_state (obs (sys_observer s)) = WORKER_IDLE \<or>
       worker_state (obs (sys_observer s)) = WORKER_FINI) \<and>
      to_worker s = [] \<and> to_observer s = [] \<and> conn_es (sys_worker s) = None)"

subsection \<open>The spec's reading of a payload and of the phase sequence\<close>

text \<open>
  The payload as the spec describes it, a concatenation of NUL-terminated
  entries: \<open>split_nul\<close> gives the entries that end in a NUL, in order, and
  the bytes left after the last NUL. A payload is malformed when one of its
  entries has no \<open>=\<close> or when bytes are left without a terminator.
\<close>

fun split_nul :: "string \<Rightarrow> string list \<times> string" where
  "split_nul [] = ([], [])"
| "split_nul (c # cs) =
     (let er = split_nul cs in
      if c = NUL then ([] # fst er, snd er)
      else (case fst er of
              [] \<Rightarrow> ([], c # snd er)
            | e # es \<Rightarrow> ((c # e) # es, snd er)))"

definition malformed_env :: "string \<Rightarrow> bool" where
  "malformed_env raw =
     (list_ex (\<lambda>e. CHR ''='' \<notin> set e) (fst (split_nul raw)) \<or> snd (split_nul raw) \<noteq> [])"

text \<open>
  The phase sequence in the spec's words: the phases run in the order of the
  list, each a function from the command resource to an int, and a negative
  return ends the sequence with a logged failure. \<open>r\<close> is the result when no
  phase is left.
\<close>

fun phase_sequence :: "command_reg list \<Rightarrow> int \<Rightarrow> cmd_res \<Rightarrow> int \<times> cmd_res" where
  "phase_sequence [] r res = (r, res)"
| "phase_sequence (p # ps) r res =
     (let rr = execute p (log_debug res (''Executing '' @ reg_name p @ '' phase.''))
      in if fst rr < 0
         then (fst rr, log_error (snd rr) (reg_name p @ '' phase failed.''))
         else phase_sequence ps (fst rr) (snd rr))"

subsection \<open>Example inputs\<close>

text \<open>
  Inputs at which the properties below are evaluated: an environment in
  which every allocation succeeds, a version, command resources as
  \<^verbatim>\<open>_init_command\<close> builds them, a phase that fails, and an observer whose
  idle timer is armed, with a reading of the clocks.
\<close>

definition ok_env :: create_env where
  "ok_env = \<lparr>zalloc_ok = True, buffer_create_ok = True, malloc_ok = True, event_source_ok = True\<rparr>"

definition example_version :: version where
  "example_version = \<lparr>ver_major = 0, ver_minor = 0, ver_release = 1\<rparr>"

definition identify_res :: "string \<Rightarrow> cmd_res" where
  "identify_res payload =
     \<lparr>res_id = ''1234/identify'',
      cmd = \<lparr>cmd_protocol = 1, cmd_type = CMD_IDENTIFY, cmd_status = 0,
             dev = zeroed_device\<lparr>raw_udev_env := payload\<rparr>, result_buf = []\<rparr>,
      logged = []\<rparr>"

definition version_res :: "8 word \<Rightarrow> cmd_res" where
  "version_res p =
     \<lparr>res_id = ''1234/version'',
      cmd = \<lparr>cmd_protocol = p, cmd_type = CMD_VERSION, cmd_status = 0,
             dev = zeroed_device, result_buf = []\<rparr>,
      logged = []\<rparr>"

definition major8_payload :: string where
  "major8_payload = ''MAJOR=8'' @ [NUL]"

definition novalue_payload :: string where
  "novalue_payload = ''novalue'' @ [NUL]"

definition failing_phase :: "cmd_res \<Rightarrow> int \<times> cmd_res" where
  "failing_phase res = (- 5, res)"

definition example_observer :: observer_res where
  "example_observer =
     \<lparr>obs_id = ''1234'',
      obs = \<lparr>worker_pid = 1234, comms_fd = 5,
             idle_timeout_es = Some \<lparr>es_clock = CLOCK_MONOTONIC, es_usec = 5000000\<rparr>,
             worker_state = WORKER_INIT\<rparr>,
      obs_logged = [], obs_calls = []\<rparr>"

definition example_now :: "clockid_t \<Rightarrow> 64 word" where
  "example_now c = 1000000"

definition example_ubridge :: ubridge_res where
  "example_ubridge = \<lparr>ub_id = ''ubridge'', socket_fd = 3\<rparr>"

text \<open>
  A system right after the spawn, and the same system once the observer has
  passed connection 7 and the worker has registered it and reported RUNNING.
\<close>

definition spawned_system :: system where
  "spawned_system =
     \<lparr>sys_observer =
        \<lparr>obs_id = ''1234'',
         obs = \<lparr>worker_pid = 1234, comms_fd = 5, idle_timeout_es = None,
                worker_state = WORKER_IDLE\<rparr>,
         obs_logged = [], obs_calls = []\<rparr>,
      sys_worker = \<lparr>wk_comms_fd = 6, conn_fd = - 1, conn_es = None\<rparr>,
      to_worker = [], to_observer = []\<rparr>"

definition running_pending_system :: system where
  "running_pending_system =
     worker_receives True 1 True (observer_accepts 7 0 example_ubridge spawned_system)"

section \<open>Properties\<close>

subsection \<open>The decoder\<close>

lemmas libc_defs =
  strtoull_def atoi_def isspace_def skip_sign_def is_negative_def has_hex_prefix_def
  digits_value_def digit_val_def ULLONG_MAX_def LONG_MAX_def LONG_MIN_def

lemma strchr_None: "c \<noteq> NUL \<Longrightarrow> strchr s c = None \<longleftrightarrow> c \<notin> set s"
  by (induction s) auto

lemma strchr_Some: "c \<noteq> NUL \<Longrightarrow> strchr s c = Some n \<Longrightarrow> n < length s \<and> s ! n = c"
  by (induction s arbitrary: n) (auto split: if_splits)

text \<open>
  The second test of \<^verbatim>\<open>_device_add_field\<close> never fires: the entry is
  refused exactly when it has no \<open>=\<close>.
\<close>

lemma device_add_field_ret:
  "fst (device_add_field d key) = (if CHR ''='' \<in> set key then 0 else - 1)"
proof (cases "strchr key (CHR ''='')")
  case None
  then show ?thesis
    using strchr_None [of "CHR ''=''" key] by (simp add: device_add_field_def)
next
  case (Some off)
  then have "key ! off = CHR ''=''" and "CHR ''='' \<in> set key"
    using strchr_Some [of "CHR ''=''" key off] strchr_None [of "CHR ''=''" key] by auto
  with Some show ?thesis
    by (simp add: device_add_field_def Let_def)
qed

lemma memchr_found:
  "c \<notin> set a \<Longrightarrow> memchr (a @ c # t) c (length a + Suc (length t)) = Some (length a)"
  by (induction a) auto

lemma memchr_absent: "c \<notin> set s \<Longrightarrow> memchr s c n = None"
  by (induction s c n rule: memchr.induct) auto

lemma split_nul_absent: "NUL \<notin> set s \<Longrightarrow> split_nul s = ([], s)"
  by (induction s) (auto simp: Let_def)

lemma split_nul_found:
  "NUL \<notin> set a \<Longrightarrow> split_nul (a @ NUL # t) = (a # fst (split_nul t), snd (split_nul t))"
  by (induction a) (auto simp: Let_def)

lemma malformed_env_Nil: "\<not> malformed_env []"
  by (simp add: malformed_env_def)

lemma malformed_env_absent: "NUL \<notin> set s \<Longrightarrow> s \<noteq> [] \<Longrightarrow> malformed_env s"
  by (simp add: malformed_env_def split_nul_absent)

lemma malformed_env_found:
  "NUL \<notin> set a \<Longrightarrow> malformed_env (a @ NUL # t) \<longleftrightarrow> CHR ''='' \<notin> set a \<or> malformed_env t"
  by (auto simp: malformed_env_def split_nul_found)

text \<open>
  The loop, started at offset \<open>i\<close>, fails exactly when what is left of the
  buffer is malformed. Induction on the number of bytes left: an iteration
  either stops or moves past one entry and its NUL.
\<close>

lemma parse_loop_ret:
  "fst (parse_loop i d) = (if malformed_env (drop i (raw_udev_env d)) then - EINVAL else 0)"
proof (induction "raw_udev_env_len d - i" arbitrary: i d rule: less_induct)
  case less
  let ?raw = "raw_udev_env d"
  show ?case
  proof (cases "i < raw_udev_env_len d")
    case False
    then show ?thesis
      by (subst parse_loop.simps) (simp add: raw_udev_env_len_def malformed_env_Nil)
  next
    case True
    then have ne: "drop i ?raw \<noteq> []" by (simp add: raw_udev_env_len_def)
    show ?thesis
    proof (cases "NUL \<in> set (drop i ?raw)")
      case False
      then show ?thesis
        using True ne
        by (subst parse_loop.simps) (simp add: memchr_absent malformed_env_absent)
    next
      case nul: True
      then obtain a t where split: "drop i ?raw = a @ NUL # t" and a: "NUL \<notin> set a"
        by (auto dest: split_list_first)
      have len: "raw_udev_env_len d - i = length a + Suc (length t)"
        using arg_cong [OF split, of length] by (simp add: raw_udev_env_len_def)
      have m: "memchr (drop i ?raw) NUL (raw_udev_env_len d - i) = Some (length a)"
        unfolding len split using a by (rule memchr_found)
      have tk: "take (length a) (drop i ?raw) = a" by (simp add: split)
      let ?d' = "snd (device_add_field d a)"
      have dr: "drop (i + length a + 1) (raw_udev_env ?d') = t"
      proof -
        have "drop (i + length a + 1) ?raw = drop (length a + 1) (drop i ?raw)"
          by (simp add: add.commute add.left_commute)
        then show ?thesis by (simp add: split)
      qed
      have IH: "fst (parse_loop (i + length a + 1) ?d') = (if malformed_env t then - EINVAL else 0)"
        using less [of ?d' "i + length a + 1"] True dr
        by (simp add: raw_udev_env_len_def)
      show ?thesis
        using True m tk IH a
        by (subst parse_loop.simps)
           (simp add: Let_def device_add_field_ret split malformed_env_found)
    qed
  qed
qed

text \<open>
  C9. An entry \<open>KEY=\<close>, with an \<open>=\<close> and an empty value, is accepted:
  \<^verbatim>\<open>_device_add_field\<close> returns 0 for it, and a payload made of that one
  entry decodes with result 0. \<^verbatim>\<open>_parse_cmd_nullstr_udev_env\<close> returns
  \<open>-EINVAL\<close> exactly when some entry of the payload has no \<open>=\<close> or the
  payload's last bytes have no NUL terminator, and 0 otherwise.
\<close>

theorem empty_value_accepted_and_EINVAL_iff_malformed:
  "fst (device_add_field d (key @ ''='')) = 0 \<and>
   (NUL \<notin> set key \<longrightarrow>
      fst (parse_cmd_nullstr_udev_env (c\<lparr>dev := (dev c)\<lparr>raw_udev_env := key @ ''='' @ [NUL]\<rparr>\<rparr>)) = 0) \<and>
   fst (parse_cmd_nullstr_udev_env c) =
     (if malformed_env (raw_udev_env (dev c)) then - EINVAL else 0)"
proof (intro conjI impI)
  show "fst (device_add_field d (key @ ''='')) = 0"
    by (simp add: device_add_field_ret)
next
  assume "NUL \<notin> set key"
  then have "\<not> malformed_env (key @ ''='' @ [NUL])"
    using malformed_env_found [of "key @ ''=''" "[]"] by (simp add: malformed_env_Nil)
  then show "fst (parse_cmd_nullstr_udev_env
      (c\<lparr>dev := (dev c)\<lparr>raw_udev_env := key @ ''='' @ [NUL]\<rparr>\<rparr>)) = 0"
    by (simp add: parse_cmd_nullstr_udev_env_def Let_def parse_loop_ret)
next
  show "fst (parse_cmd_nullstr_udev_env c) =
      (if malformed_env (raw_udev_env (dev c)) then - EINVAL else 0)"
    by (simp add: parse_cmd_nullstr_udev_env_def Let_def parse_loop_ret)
qed

theorem empty_value_accepted_and_EINVAL_iff_malformed_witness:
  "fst (device_add_field zeroed_device ''DEVNAME='') = 0 \<and>
   NUL \<notin> set ''DEVNAME'' \<and>
   fst (parse_cmd_nullstr_udev_env
     \<lparr>cmd_protocol = 1, cmd_type = 3, cmd_status = 0,
      dev = zeroed_device\<lparr>raw_udev_env := ''DEVNAME='' @ [NUL]\<rparr>, result_buf = []\<rparr>) = 0 \<and>
   split_nul (''MAJOR=8'' @ [NUL] @ ''MINOR'' @ [NUL]) = ([''MAJOR=8'', ''MINOR''], []) \<and>
   malformed_env (''MAJOR=8'' @ [NUL] @ ''MINOR'' @ [NUL]) \<and>
   fst (parse_cmd_nullstr_udev_env
     \<lparr>cmd_protocol = 1, cmd_type = 3, cmd_status = 0,
      dev = zeroed_device\<lparr>raw_udev_env := ''MAJOR=8'' @ [NUL] @ ''MINOR'' @ [NUL]\<rparr>,
      result_buf = []\<rparr>) = - EINVAL"
  using empty_value_accepted_and_EINVAL_iff_malformed
    [of zeroed_device "''DEVNAME''"
        "\<lparr>cmd_protocol = 1, cmd_type = 3, cmd_status = 0,
          dev = zeroed_device\<lparr>raw_udev_env := ''MAJOR=8'' @ [NUL] @ ''MINOR'' @ [NUL]\<rparr>,
          result_buf = []\<rparr>"]
    empty_value_accepted_and_EINVAL_iff_malformed
    [of zeroed_device "''DEVNAME''"
        "\<lparr>cmd_protocol = 1, cmd_type = 3, cmd_status = 0,
          dev = zeroed_device\<lparr>raw_udev_env := ''DEVNAME='' @ [NUL]\<rparr>, result_buf = []\<rparr>"]
  by (simp add: malformed_env_def Let_def)

text \<open>
  C2. \<^verbatim>\<open>_device_add_field\<close> reads the value of SEQNUM with
  \<^verbatim>\<open>strtoull(value, NULL, key_len)\<close>, and \<open>key_len\<close> is 6 for the key
  SEQNUM: the digits of every such entry are read in base 6. The entry \<open>SEQNUM=42\<close> sets
  \<open>seqnum\<close> to 26, and the payload of the spec's third scenario decodes to
  action ADD, major 8, minor 0 and seqnum 26.
\<close>

theorem seqnum_is_read_in_base_6:
  "device_add_field d (''SEQNUM='' @ digits) = (0, d\<lparr>seqnum := strtoull digits 6\<rparr>) \<and>
   device_add_field d ''SEQNUM=42'' = (0, d\<lparr>seqnum := 26\<rparr>) \<and>
   parse_loop 0 (zeroed_device\<lparr>raw_udev_env :=
       ''ACTION=add'' @ [NUL] @ ''MAJOR=8'' @ [NUL] @ ''MINOR=0'' @ [NUL] @ ''SEQNUM=42'' @ [NUL]\<rparr>) =
     (0, zeroed_device\<lparr>raw_udev_env :=
           ''ACTION=add'' @ [NUL] @ ''MAJOR=8'' @ [NUL] @ ''MINOR=0'' @ [NUL] @ ''SEQNUM=42'' @ [NUL],
         action := UDEV_ACTION_ADD, major := 8, minor := 0, seqnum := 26\<rparr>)"
proof (intro conjI)
  show "device_add_field d (''SEQNUM='' @ digits) = (0, d\<lparr>seqnum := strtoull digits 6\<rparr>)"
    by (simp add: device_add_field_def eval_nat_numeral)
next
  show "device_add_field d ''SEQNUM=42'' = (0, d\<lparr>seqnum := 26\<rparr>)"
    by (simp add: device_add_field_def libc_defs)
next
  note ev = device_add_field_def libc_defs util_get_udev_action_from_string_def
    raw_udev_env_len_def zeroed_device_def
  show "parse_loop 0 (zeroed_device\<lparr>raw_udev_env :=
       ''ACTION=add'' @ [NUL] @ ''MAJOR=8'' @ [NUL] @ ''MINOR=0'' @ [NUL] @ ''SEQNUM=42'' @ [NUL]\<rparr>) =
     (0, zeroed_device\<lparr>raw_udev_env :=
           ''ACTION=add'' @ [NUL] @ ''MAJOR=8'' @ [NUL] @ ''MINOR=0'' @ [NUL] @ ''SEQNUM=42'' @ [NUL],
         action := UDEV_ACTION_ADD, major := 8, minor := 0, seqnum := 26\<rparr>)"
    apply (subst parse_loop.simps, simp add: ev)
    apply (subst parse_loop.simps, simp add: ev)
    apply (subst parse_loop.simps, simp add: ev)
    apply (subst parse_loop.simps, simp add: ev)
    apply (subst parse_loop.simps, simp add: ev)
    done
qed

text \<open>
  C8. The keys are compared with \<^verbatim>\<open>strncmp(key, "...", key_len)\<close>,
  \<open>key_len\<close> being the length of the entry's key: a key that is a proper
  prefix of a recognised one compares equal. Every entry with the key
  \<open>DEV\<close> sets the device's name to its value, as \<open>DEV=sda\<close> does, and
  the entry \<open>=add\<close>, with an empty key, sets its action.
\<close>

theorem key_prefix_is_taken_for_the_key:
  "device_add_field d (''DEV='' @ v) = (0, d\<lparr>name := Some v\<rparr>) \<and>
   device_add_field d ''DEV=sda'' = (0, d\<lparr>name := Some ''sda''\<rparr>) \<and>
   device_add_field d ''=add'' = (0, d\<lparr>action := UDEV_ACTION_ADD\<rparr>)"
  by (simp add: device_add_field_def util_get_udev_action_from_string_def)

subsection \<open>The identify command\<close>

lemma ident_phase_loop_eq:
  "phase \<le> Suc CMD_IDENT_PHASE_END \<Longrightarrow> CMD_IDENT_PHASE_END < length regs \<Longrightarrow>
   ident_phase_loop regs phase r res =
     phase_sequence (drop phase (take (Suc CMD_IDENT_PHASE_END) regs)) r res"
proof (induction "Suc CMD_IDENT_PHASE_END - phase" arbitrary: phase r res)
  case 0
  then have "phase = Suc CMD_IDENT_PHASE_END" by simp
  then show ?case
    by (subst ident_phase_loop.simps) simp
next
  case (Suc n)
  then have lt: "phase \<le> CMD_IDENT_PHASE_END" by simp
  then have "phase < length (take (Suc CMD_IDENT_PHASE_END) regs)"
    using Suc.prems by simp
  then have dr: "drop phase (take (Suc CMD_IDENT_PHASE_END) regs) =
      regs ! phase # drop (Suc phase) (take (Suc CMD_IDENT_PHASE_END) regs)"
    using lt by (simp add: Cons_nth_drop_Suc [symmetric])
  have IH: "\<And>r res. ident_phase_loop regs (Suc phase) r res =
      phase_sequence (drop (Suc phase) (take (Suc CMD_IDENT_PHASE_END) regs)) r res"
    using Suc.hyps(1) [of "Suc phase"] Suc.hyps(2) Suc.prems lt by simp
  show ?case
    using lt by (subst ident_phase_loop.simps) (simp add: dr IH Let_def)
qed

lemma cmd_execute_identify_regs_ok:
  assumes "fst (init_device res) = 0" and "CMD_IDENT_PHASE_END < length regs"
  shows "cmd_execute_identify_regs regs res =
     phase_sequence (take (Suc CMD_IDENT_PHASE_END) regs) 0 (snd (init_device res))"
  using assms ident_phase_loop_eq [of 0 regs 0 "snd (init_device res)"]
  by (simp add: cmd_execute_identify_regs_def Let_def CMD_IDENT_PHASE_START_def)

lemmas phase_defs =
  cmd_execute_identify_ident_def cmd_execute_identify_scan_pre_def
  cmd_execute_identify_scan_core_current_def cmd_execute_identify_scan_core_next_basic_def
  cmd_execute_identify_scan_core_next_extended_def cmd_execute_identify_scan_post_def

lemma phase_sequence_source_table:
  "phase_sequence cmd_ident_phase_regs r res =
     (0, res\<lparr>logged := logged res @
        map (\<lambda>n. LOG_debug (res_id res) (''Executing '' @ n @ '' phase.''))
          [''ident'', ''scan-pre'', ''scan-core-current'', ''scan-core-next-basic'',
           ''scan-core-next-extended'', ''scan-post'']\<rparr>)"
  by (simp add: cmd_ident_phase_regs_def phase_defs log_debug_def)

lemma init_device_res_id: "res_id (snd (init_device res)) = res_id res"
  by (simp add: init_device_def Let_def log_error_errno_def)

lemma init_device_ret:
  "fst (init_device res) = (if malformed_env (raw_udev_env (dev (cmd res))) then - 1 else 0)"
  by (simp add: init_device_def parse_cmd_nullstr_udev_env_def Let_def parse_loop_ret EINVAL_def)

lemma init_device_result_buf: "result_buf (cmd (snd (init_device res))) = result_buf (cmd res)"
  by (simp add: init_device_def parse_cmd_nullstr_udev_env_def Let_def log_error_errno_def)

text \<open>What \<^verbatim>\<open>_cmd_execute_identify\<close> returns, with the table of the source.\<close>

lemma cmd_execute_identify_eq:
  "cmd_execute_identify res =
     (if fst (init_device res) < 0 then (1, snd (init_device res))
      else (0, (snd (init_device res))\<lparr>logged := logged (snd (init_device res)) @
              map (\<lambda>n. LOG_debug (res_id res) (''Executing '' @ n @ '' phase.''))
                [''ident'', ''scan-pre'', ''scan-core-current'', ''scan-core-next-basic'',
                 ''scan-core-next-extended'', ''scan-post'']\<rparr>))"
proof (cases "fst (init_device res) < 0")
  case True
  then show ?thesis
    by (simp add: cmd_execute_identify_def cmd_execute_identify_regs_def Let_def)
next
  case False
  then have z: "fst (init_device res) = 0"
    by (simp add: init_device_ret split: if_splits)
  have "CMD_IDENT_PHASE_END < length cmd_ident_phase_regs"
    by (simp add: cmd_ident_phase_regs_def cmd_ident_phase_t_defs)
  from cmd_execute_identify_regs_ok [OF z this] z show ?thesis
    by (simp add: cmd_execute_identify_def cmd_ident_phase_regs_def cmd_ident_phase_t_defs
        phase_defs log_debug_def init_device_res_id)
qed

lemma parse_loop_major8:
  "parse_loop 0 (zeroed_device\<lparr>raw_udev_env := major8_payload\<rparr>) =
     (0, zeroed_device\<lparr>raw_udev_env := major8_payload, major := 8\<rparr>)"
  apply (subst parse_loop.simps, simp add: device_add_field_def libc_defs raw_udev_env_len_def
      zeroed_device_def major8_payload_def)
  apply (subst parse_loop.simps, simp add: device_add_field_def libc_defs raw_udev_env_len_def
      zeroed_device_def major8_payload_def)
  done

lemma init_device_major8:
  "init_device (identify_res major8_payload) =
     (0, (identify_res major8_payload)
          \<lparr>cmd := (cmd (identify_res major8_payload))
             \<lparr>dev := zeroed_device\<lparr>raw_udev_env := major8_payload, major := 8\<rparr>\<rparr>\<rparr>)"
  using parse_loop_major8
  by (simp add: init_device_def parse_cmd_nullstr_udev_env_def Let_def identify_res_def)

text \<open>
  C6. For an identify command whose device decoding succeeds
  (\<^verbatim>\<open>_init_device\<close> returns 0) and any phase table \<open>regs\<close> with entries for
  the six phases 0 to 5, \<^verbatim>\<open>_cmd_execute_identify\<close> is the phase sequence
  of the first six entries, in order: each phase is logged and run, and the
  first negative return ends the sequence and is returned. With the table of
  the source that is ident, scan-pre, scan-core-current,
  scan-core-next-basic, scan-core-next-extended, scan-post, each run once,
  and the result is 0. Entries that follow the six in the table, where the
  enumeration has the two trigger-action phases, are never invoked: whatever
  they are, the command does the same.
\<close>

theorem identify_runs_the_six_phases_in_order:
  assumes "fst (init_device res) = 0" and "CMD_IDENT_PHASE_END < length regs"
  shows "cmd_execute_identify_regs regs res =
           phase_sequence (take 6 regs) 0 (snd (init_device res)) \<and>
         cmd_execute_identify res =
           (0, (snd (init_device res))\<lparr>logged := logged (snd (init_device res)) @
              map (\<lambda>n. LOG_debug (res_id res) (''Executing '' @ n @ '' phase.''))
                [''ident'', ''scan-pre'', ''scan-core-current'', ''scan-core-next-basic'',
                 ''scan-core-next-extended'', ''scan-post'']\<rparr>) \<and>
         cmd_execute_identify_regs (cmd_ident_phase_regs @ trigger_action_regs) res =
           cmd_execute_identify res"
proof -
  have six: "Suc CMD_IDENT_PHASE_END = 6"
    by (simp add: cmd_ident_phase_t_defs)
  have len: "length cmd_ident_phase_regs = 6"
    by (simp add: cmd_ident_phase_regs_def)
  have gen: "cmd_execute_identify_regs t res = phase_sequence (take 6 t) 0 (snd (init_device res))"
    if "CMD_IDENT_PHASE_END < length t" for t
    using cmd_execute_identify_regs_ok [OF assms(1) that] by (simp add: six)
  have src: "cmd_execute_identify res =
      phase_sequence cmd_ident_phase_regs 0 (snd (init_device res))"
    using gen [of cmd_ident_phase_regs] six len by (simp add: cmd_execute_identify_def)
  have ext: "cmd_execute_identify_regs (cmd_ident_phase_regs @ trigger_action_regs) res =
      phase_sequence cmd_ident_phase_regs 0 (snd (init_device res))"
    using gen [of "cmd_ident_phase_regs @ trigger_action_regs"] six len by simp
  show ?thesis
    using gen [OF assms(2)] src ext
    by (simp add: phase_sequence_source_table init_device_res_id)
qed

theorem identify_runs_the_six_phases_in_order_witness:
  "fst (init_device (identify_res major8_payload)) = 0 \<and>
   CMD_IDENT_PHASE_END < length (cmd_ident_phase_regs
      [2 := \<lparr>reg_name = ''scan-core-current'', execute = failing_phase\<rparr>]) \<and>
   cmd_execute_identify_regs
     (cmd_ident_phase_regs [2 := \<lparr>reg_name = ''scan-core-current'', execute = failing_phase\<rparr>])
     (identify_res major8_payload) =
     (- 5, \<lparr>res_id = ''1234/identify'',
            cmd = \<lparr>cmd_protocol = 1, cmd_type = CMD_IDENTIFY, cmd_status = 0,
                   dev = zeroed_device\<lparr>raw_udev_env := major8_payload, major := 8\<rparr>,
                   result_buf = []\<rparr>,
            logged = [LOG_debug ''1234/identify'' ''Executing ident phase.'',
                      LOG_debug ''1234/identify'' ''Executing scan-pre phase.'',
                      LOG_debug ''1234/identify'' ''Executing scan-core-current phase.'',
                      LOG_error ''1234/identify'' ''scan-core-current phase failed.'']\<rparr>) \<and>
   fst (cmd_execute_identify (identify_res major8_payload)) = 0"
proof -
  let ?res = "identify_res major8_payload"
  let ?regs = "cmd_ident_phase_regs [2 := \<lparr>reg_name = ''scan-core-current'', execute = failing_phase\<rparr>]"
  have i: "fst (init_device ?res) = 0"
    by (simp add: init_device_major8)
  have l: "CMD_IDENT_PHASE_END < length ?regs"
    by (simp add: cmd_ident_phase_regs_def cmd_ident_phase_t_defs)
  note t = identify_runs_the_six_phases_in_order [OF i l, of "[]"]
  have r1: "cmd_execute_identify_regs ?regs ?res =
      phase_sequence (take 6 ?regs) 0 (snd (init_device ?res))"
    by (rule t [THEN conjunct1])
  have r2: "fst (cmd_execute_identify ?res) = 0"
    using t [THEN conjunct2, THEN conjunct1] by simp
  have r3: "phase_sequence (take 6 ?regs) 0 (snd (init_device ?res)) =
     (- 5, \<lparr>res_id = ''1234/identify'',
            cmd = \<lparr>cmd_protocol = 1, cmd_type = CMD_IDENTIFY, cmd_status = 0,
                   dev = zeroed_device\<lparr>raw_udev_env := major8_payload, major := 8\<rparr>,
                   result_buf = []\<rparr>,
            logged = [LOG_debug ''1234/identify'' ''Executing ident phase.'',
                      LOG_debug ''1234/identify'' ''Executing scan-pre phase.'',
                      LOG_debug ''1234/identify'' ''Executing scan-core-current phase.'',
                      LOG_error ''1234/identify'' ''scan-core-current phase failed.'']\<rparr>)"
    unfolding init_device_major8 snd_conv
    by (simp add: cmd_ident_phase_regs_def phase_defs failing_phase_def
        log_debug_def log_error_def identify_res_def)
  show ?thesis
  proof (intro conjI)
    show "fst (init_device ?res) = 0" by (rule i)
    show "CMD_IDENT_PHASE_END < length ?regs" by (rule l)
    show "fst (cmd_execute_identify ?res) = 0" by (rule r2)
  qed (simp only: r1 r3)
qed

text \<open>
  C1. \<^verbatim>\<open>_cmd_execute_identify\<close> returns 1 when \<^verbatim>\<open>_init_device\<close>
  returns a negative value, since it assigns the truth value of the
  comparison; no phase is run. For the identify command whose payload is the
  single entry \<open>novalue\<close>, which has no \<open>=\<close>, \<^verbatim>\<open>_init_device\<close> returns
  \<open>-1\<close>, \<^verbatim>\<open>_cmd_execute_identify\<close> returns 1, \<^verbatim>\<open>_cmd_handler\<close>
  returns 1, and the status of the response header is 0: the failure bit is
  not set.
\<close>

theorem identify_returns_1_when_decoding_fails:
  "cmd_execute_identify res =
     (if fst (init_device res) < 0 then (1, snd (init_device res))
      else (0, snd (cmd_execute_identify res))) \<and>
   fst (init_device (identify_res novalue_payload)) = - 1 \<and>
   fst (cmd_execute_identify (identify_res novalue_payload)) = 1 \<and>
   hr_ret (cmd_handler this_version (identify_res novalue_payload)) = 1 \<and>
   status (hr_response_header (cmd_handler this_version (identify_res novalue_payload))) = 0"
proof -
  have m: "malformed_env novalue_payload"
    by (simp add: malformed_env_def novalue_payload_def Let_def)
  have i: "fst (init_device r) = - 1"
    if "raw_udev_env (dev (cmd r)) = novalue_payload" for r
    using that m by (simp add: init_device_ret)
  have e: "fst (cmd_execute_identify r) = 1"
    if "raw_udev_env (dev (cmd r)) = novalue_payload" for r
    using i [OF that] by (simp add: cmd_execute_identify_eq)
  show ?thesis
    using i [of "identify_res novalue_payload"] e
    by (simp add: cmd_execute_identify_eq cmd_handler_def cmd_handler_regs_def Let_def
        identify_res_def command_regs_def CMD_IDENTIFY_def UBRIDGE_PROTOCOL_def)
qed

subsection \<open>The command handler\<close>

lemma bit0_failure [simp]:
  "bit (x OR COMMAND_STATUS_FAILURE) 0" "bit COMMAND_STATUS_FAILURE 0"
  by (simp_all add: COMMAND_STATUS_FAILURE_def bit_or_iff)

lemma ok_env_simps [simp]:
  "zalloc_ok ok_env" "buffer_create_ok ok_env" "malloc_ok ok_env" "event_source_ok ok_env"
  by (simp_all add: ok_env_def)

text \<open>Every command of the source's table leaves what the buffer holds and appends to it.\<close>

lemma command_regs_result_buf:
  assumes "t < length command_regs"
  shows "\<exists>tail. result_buf (cmd (snd (execute (command_regs ! t) res))) = result_buf (cmd res) @ tail"
proof -
  from assms have "t = 0 \<or> t = 1 \<or> t = 2 \<or> t = 3 \<or> t = 4"
    by (auto simp: command_regs_def)
  then show ?thesis
    by (auto simp: command_regs_def cmd_execute_unknown_def cmd_execute_reply_def
        cmd_execute_version_def cmd_execute_checkpoint_def cmd_execute_identify_eq
        init_device_result_buf buffer_add_def)
qed

text \<open>So the header is the first thing the handler writes for a fresh command.\<close>

lemma cmd_handler_written:
  assumes "cmd_type (cmd res) < length command_regs" and "result_buf (cmd res) = []"
  shows "\<exists>payload. hr_written (cmd_handler this_version res) =
           OBJ_header (hr_response_header (cmd_handler this_version res)) # payload"
proof -
  let ?res1 = "res\<lparr>cmd := (cmd res)\<lparr>result_buf :=
      buffer_add (result_buf (cmd res)) REF_response_header sizeof_raw_command_header\<rparr>\<rparr>"
  obtain tail where
    "result_buf (cmd (snd (execute (command_regs ! cmd_type (cmd res)) ?res1))) =
       result_buf (cmd ?res1) @ tail"
    using command_regs_result_buf [OF assms(1), of ?res1] by blast
  then show ?thesis
    using assms(2)
    by (simp add: cmd_handler_def cmd_handler_regs_def Let_def buffer_write_def buffer_add_def
        log_error_errno_def)
qed

text \<open>
  C5. For a command handled by \<^verbatim>\<open>_cmd_handler\<close> over any command
  table \<open>regs\<close> that has an entry for the command's type, bit 0 of the
  response header's status is set if and only if the request protocol
  exceeds \<^verbatim>\<open>UBRIDGE_PROTOCOL\<close> or the entry's execute function returns a
  negative value. When the protocol is at most \<^verbatim>\<open>UBRIDGE_PROTOCOL\<close> the
  entry indexed by the command's type is executed, on the command with the
  header already handed to the buffer: the handler returns its result and
  leaves its state. Otherwise nothing is executed and the handler returns
  \<open>-1\<close>. With the table of the source and a fresh command, the header is the
  first object written to the connection.
\<close>

theorem overall_bit_iff_unsupported_or_failed:
  assumes "cmd_type (cmd res) < length regs"
  shows "let res1 = res\<lparr>cmd := (cmd res)\<lparr>result_buf :=
                      buffer_add (result_buf (cmd res)) REF_response_header
                        sizeof_raw_command_header\<rparr>\<rparr>;
             ex = execute (regs ! cmd_type (cmd res)) res1;
             hr = cmd_handler_regs regs this_version res
         in (bit (status (hr_response_header hr)) 0 \<longleftrightarrow>
               UBRIDGE_PROTOCOL < cmd_protocol (cmd res) \<or> fst ex < 0) \<and>
            (cmd_protocol (cmd res) \<le> UBRIDGE_PROTOCOL \<longrightarrow>
               hr_ret hr = fst ex \<and>
               hr_res hr = (if fst ex < 0
                            then log_error_errno (snd ex) (fst ex) ''Failed to execute command''
                            else snd ex)) \<and>
            (UBRIDGE_PROTOCOL < cmd_protocol (cmd res) \<longrightarrow> hr_ret hr = - 1 \<and> hr_res hr = res1) \<and>
            (regs = command_regs \<and> result_buf (cmd res) = [] \<longrightarrow>
               (\<exists>payload. hr_written hr = OBJ_header (hr_response_header hr) # payload))"
proof -
  let ?hr = "cmd_handler_regs regs this_version res"
  have w: "\<exists>payload. hr_written ?hr = OBJ_header (hr_response_header ?hr) # payload"
    if "regs = command_regs \<and> result_buf (cmd res) = []"
    using cmd_handler_written [of res this_version] assms that
    by (simp add: cmd_handler_def)
  show ?thesis
    unfolding Let_def
  proof (intro conjI)
    show "regs = command_regs \<and> result_buf (cmd res) = [] \<longrightarrow>
        (\<exists>payload. hr_written ?hr = OBJ_header (hr_response_header ?hr) # payload)"
      using w by blast
  qed (auto simp: cmd_handler_regs_def Let_def not_le)
qed

theorem overall_bit_iff_unsupported_or_failed_witness:
  "cmd_type (cmd (version_res 1)) < length command_regs \<and>
   cmd_type (cmd (version_res 2)) < length command_regs \<and>
   \<not> bit (status (hr_response_header
                   (cmd_handler_regs command_regs example_version (version_res 1)))) 0 \<and>
   hr_ret (cmd_handler_regs command_regs example_version (version_res 1)) = 0 \<and>
   bit (status (hr_response_header
                 (cmd_handler_regs command_regs example_version (version_res 2)))) 0 \<and>
   hr_ret (cmd_handler_regs command_regs example_version (version_res 2)) = - 1"
proof -
  have l: "cmd_type (cmd (version_res p)) < length command_regs" for p
    by (simp add: version_res_def command_regs_def CMD_VERSION_def)
  show ?thesis
    using overall_bit_iff_unsupported_or_failed [OF l [of 1], of example_version]
      overall_bit_iff_unsupported_or_failed [OF l [of 2], of example_version] l
    by (simp add: Let_def version_res_def command_regs_def CMD_VERSION_def
        cmd_execute_version_def UBRIDGE_PROTOCOL_def word_le_nat_alt word_less_nat_alt)
qed

text \<open>
  C3. \<^verbatim>\<open>_cmd_handler\<close> zeroes the response header and then assigns only
  its protocol and its status: the \<open>cmd_number\<close> of the header it writes is
  0, the value of \<open>CMD_UNKNOWN\<close>, for every command. For the version request
  of the spec's first scenario (protocol 1, command 2, status 0, no
  payload) the worker writes a header with protocol 1, cmd_number 0 and
  status 0, followed by the version.
\<close>

theorem response_cmd_number_is_0:
  "cmd_number (hr_response_header (cmd_handler this_version res)) = 0 \<and>
   map_option hr_written
     (worker_serve_frame worker_id pid ok_env this_version
        \<lparr>protocol = 1, cmd_number = 2, status = 0, data = []\<rparr>) =
     Some [OBJ_header \<lparr>protocol = 1, cmd_number = 0, status = 0, data = []\<rparr>,
           OBJ_version this_version]"
  by (simp add: worker_serve_frame_def on_worker_conn_event_frame_def
      sid_resource_create_command_def init_command_def cmd_handler_def cmd_handler_regs_def
      Let_def command_t_defs command_regs_def cmd_execute_version_def buffer_add_def
      buffer_write_def UBRIDGE_PROTOCOL_def sizeof_raw_command_header_def)

subsection \<open>Unknown commands\<close>

lemma string_of_nat_length: "0 < k \<Longrightarrow> n < 10 ^ k \<Longrightarrow> length (string_of_nat n) \<le> k"
proof (induction k arbitrary: n)
  case 0
  then show ?case by simp
next
  case (Suc k)
  show ?case
  proof (cases "n < 10")
    case True
    then show ?thesis by (subst string_of_nat.simps) simp
  next
    case False
    with Suc.prems have "0 < k" and "n div 10 < 10 ^ k"
      by (cases k; simp)+
    then have "length (string_of_nat (n div 10)) \<le> k"
      by (rule Suc.IH)
    with False show ?thesis by (subst string_of_nat.simps) simp
  qed
qed

lemma string_of_nat_1234: "string_of_nat 1234 = ''1234''"
  by code_simp

text \<open>
  C4, as amended. Take a received request frame whose \<open>cmd_number\<close> byte is
  outside 1 to 4, a process id in the range of \<^verbatim>\<open>pid_t\<close>, and let the
  creation of the command resource succeed. The command number is
  normalised to 0, \<open>CMD_UNKNOWN\<close>, before the command is created; the
  command is registered under the id \<open>pid/unknown\<close>; the handler logs
  nothing, leaves the command as it was but for the header entry of its
  buffer, and writes the header alone. When the request protocol is at most
  \<^verbatim>\<open>UBRIDGE_PROTOCOL\<close> the handler returns 0 and the status of the
  response is 0. When the protocol is higher nothing is executed, the
  handler returns \<open>-1\<close> and the status is \<open>COMMAND_STATUS_FAILURE\<close>.
\<close>

theorem unknown_command_is_normalised:
  assumes "unat (cmd_number raw_stream) \<notin> {1, 2, 3, 4}"
    and "zalloc_ok env" and "buffer_create_ok env" and "malloc_ok env" and "event_source_ok env"
    and "pid < 2 ^ 31"
  shows "let ce = on_worker_conn_event_frame worker_id pid env raw_stream;
             created = \<lparr>res_id = string_of_nat pid @ ''/unknown'',
                        cmd = \<lparr>cmd_protocol = protocol raw_stream, cmd_type = CMD_UNKNOWN,
                               cmd_status = ucast (status raw_stream),
                               dev = zeroed_device\<lparr>raw_udev_env := data raw_stream\<rparr>,
                               result_buf = []\<rparr>,
                        logged = []\<rparr>;
             handled = created\<lparr>cmd := (cmd created)\<lparr>result_buf :=
                         [\<lparr>iov_base = REF_response_header, iov_len = sizeof_raw_command_header\<rparr>]\<rparr>\<rparr>;
             hr = cmd_handler this_version created
         in cmd_number (header (ce_raw_cmd ce)) = 0 \<and>
            ce_id ce = string_of_nat pid @ ''/unknown'' \<and>
            ce_created ce = Some created \<and>
            worker_serve_frame worker_id pid env this_version raw_stream = Some hr \<and>
            hr_res hr = handled \<and>
            hr_written hr = [OBJ_header (hr_response_header hr)] \<and>
            (protocol raw_stream \<le> UBRIDGE_PROTOCOL \<longrightarrow>
               hr_ret hr = 0 \<and>
               hr_response_header hr =
                 \<lparr>protocol = protocol raw_stream, cmd_number = 0, status = 0, data = []\<rparr>) \<and>
            (UBRIDGE_PROTOCOL < protocol raw_stream \<longrightarrow>
               hr_ret hr = - 1 \<and>
               hr_response_header hr =
                 \<lparr>protocol = 0, cmd_number = 0, status = COMMAND_STATUS_FAILURE, data = []\<rparr>)"
proof -
  have "pid < 10 ^ 10" using assms(6) by simp
  then have "length (string_of_nat pid) \<le> 10"
    by (intro string_of_nat_length) simp_all
  then have tk: "take 30 (string_of_nat pid @ ''/unknown'') = string_of_nat pid @ ''/unknown''"
    by simp
  have n: "unat (cmd_number raw_stream) \<le> CMD_START \<or> CMD_END \<le> unat (cmd_number raw_stream)"
    using assms(1) by (auto simp: command_t_defs)
  have ce: "on_worker_conn_event_frame worker_id pid env raw_stream =
      \<lparr>ce_ret = 0,
       ce_raw_cmd = \<lparr>header = raw_stream\<lparr>cmd_number := 0\<rparr>,
                     len = sizeof_raw_command_header + length (data raw_stream)\<rparr>,
       ce_id = string_of_nat pid @ ''/unknown'',
       ce_created = Some \<lparr>res_id = string_of_nat pid @ ''/unknown'',
                        cmd = \<lparr>cmd_protocol = protocol raw_stream, cmd_type = CMD_UNKNOWN,
                               cmd_status = ucast (status raw_stream),
                               dev = zeroed_device\<lparr>raw_udev_env := data raw_stream\<rparr>,
                               result_buf = []\<rparr>,
                        logged = []\<rparr>,
       ce_logged = []\<rparr>"
    using n assms(2-5) tk
    by (simp add: on_worker_conn_event_frame_def sid_resource_create_command_def
        init_command_def Let_def command_regs_def CMD_UNKNOWN_def)
  show ?thesis
    unfolding Let_def worker_serve_frame_def ce
    by (auto simp: cmd_handler_def cmd_handler_regs_def Let_def command_regs_def
        cmd_execute_unknown_def buffer_add_def buffer_write_def CMD_UNKNOWN_def not_le)
qed

theorem unknown_command_is_normalised_witness:
  "unat (cmd_number \<lparr>protocol = 1, cmd_number = 99, status = 0, data = []\<rparr>) \<notin> {1, 2, 3, 4} \<and>
   zalloc_ok ok_env \<and> buffer_create_ok ok_env \<and> malloc_ok ok_env \<and> event_source_ok ok_env \<and>
   (1234 :: nat) < 2 ^ 31 \<and>
   ce_id (on_worker_conn_event_frame ''1234'' 1234 ok_env
            \<lparr>protocol = 1, cmd_number = 99, status = 0, data = []\<rparr>) = ''1234/unknown'' \<and>
   map_option hr_ret
     (worker_serve_frame ''1234'' 1234 ok_env example_version
        \<lparr>protocol = 1, cmd_number = 99, status = 0, data = []\<rparr>) = Some 0 \<and>
   map_option hr_written
     (worker_serve_frame ''1234'' 1234 ok_env example_version
        \<lparr>protocol = 1, cmd_number = 99, status = 0, data = []\<rparr>) =
     Some [OBJ_header \<lparr>protocol = 1, cmd_number = 0, status = 0, data = []\<rparr>]"
  using unknown_command_is_normalised
    [of "\<lparr>protocol = 1, cmd_number = 99, status = 0, data = []\<rparr>" ok_env 1234 "''1234''"
        example_version]
  by (simp add: Let_def string_of_nat_1234 UBRIDGE_PROTOCOL_def)

text \<open>
  The claim as it was stated fails on a frame with command number 99 and
  protocol 2: the command is normalised and registered, but the handler
  executes nothing for a protocol above \<^verbatim>\<open>UBRIDGE_PROTOCOL\<close>; it
  returns \<open>-1\<close> and the status is 1, bit 0 set.
\<close>

theorem unknown_command_unsupported_protocol:
  "map_option hr_ret
     (worker_serve_frame ''1234'' 1234 ok_env example_version
        \<lparr>protocol = 2, cmd_number = 99, status = 0, data = []\<rparr>) = Some (- 1) \<and>
   map_option hr_response_header
     (worker_serve_frame ''1234'' 1234 ok_env example_version
        \<lparr>protocol = 2, cmd_number = 99, status = 0, data = []\<rparr>) =
     Some \<lparr>protocol = 0, cmd_number = 0, status = 1, data = []\<rparr> \<and>
   bit (1 :: 64 word) 0"
  by (simp add: worker_serve_frame_def on_worker_conn_event_frame_def
      sid_resource_create_command_def init_command_def cmd_handler_def cmd_handler_regs_def
      Let_def command_t_defs command_regs_def UBRIDGE_PROTOCOL_def word_le_nat_alt
      COMMAND_STATUS_FAILURE_def)

subsection \<open>The observer's view of its worker\<close>

text \<open>
  Every reachable state is of one of the two kinds. Rule induction: each
  step of the system keeps the kind or moves to the other one.
\<close>

lemma reachable_serving_or_resting: "reachable s \<Longrightarrow> serving s \<or> resting s"
proof (induction rule: reachable.induct)
  case (spawned zo co io rid ks lo ob zw sw cw bw wid kw lw w)
  then show ?case
    by (auto simp: init_observer_def init_worker_def resting_def split: if_splits)
next
  case (accepts s fd send_ret ub)
  then show ?case
    by (auto simp: observer_accepts_def accept_connection_and_pass_to_worker_def Let_def
        serving_def resting_def)
next
  case (worker_receives s es_ok send_ret delivered)
  then show ?case
    by (auto simp: worker_receives_def on_worker_comms_event_def Let_def
        serving_def resting_def split: list.splits)
next
  case (worker_cleans_up s iter_ok send_ret delivered)
  then show ?case
    by (auto simp: worker_cleans_up_def worker_cleanup_def Let_def serving_def resting_def)
next
  case (observer_receives s recv_ret now)
  then show ?case
    by (auto simp: observer_receives_def on_observer_comms_event_def Let_def
        serving_def resting_def INTERNAL_COMMS_CMD_RUNNING_def INTERNAL_COMMS_CMD_IDLE_def
        split: list.splits)
next
  case (idle_timeout_fires s)
  then show ?case
    by (auto simp: idle_timeout_fires_def on_idle_task_timeout_event_def serving_def resting_def)
qed

lemma reachable_spawned_system: "reachable spawned_system"
  unfolding spawned_system_def
  by (rule reachable.spawned
      [of True True True "''1234''" "\<lparr>ks_worker_pid = 1234, ks_comms_fd = 5\<rparr>" "[]" _
          True True True True "''1234''" "\<lparr>ks_worker_pid = 1234, ks_comms_fd = 6\<rparr>" "[]"])
     (simp_all add: init_observer_def init_worker_def)

lemma reachable_running_pending_system: "reachable running_pending_system"
  unfolding running_pending_system_def
  by (intro reachable.worker_receives reachable.accepts reachable_spawned_system)
     (simp add: spawned_system_def)

lemma running_pending_system_eq:
  "running_pending_system =
     \<lparr>sys_observer =
        \<lparr>obs_id = ''1234'',
         obs = \<lparr>worker_pid = 1234, comms_fd = 5, idle_timeout_es = None,
                worker_state = WORKER_INIT\<rparr>,
         obs_logged = [LOG_debug ''1234'' ''Worker state changed to WORKER_INIT.''],
         obs_calls = [SYS_send_fd 5 7, SYS_close 7]\<rparr>,
      sys_worker = \<lparr>wk_comms_fd = 6, conn_fd = 7, conn_es = Some 7\<rparr>,
      to_worker = [], to_observer = [INTERNAL_COMMS_CMD_RUNNING]\<rparr>"
  by (simp add: running_pending_system_def worker_receives_def observer_accepts_def
      on_worker_comms_event_def accept_connection_and_pass_to_worker_def spawned_system_def
      Let_def)

lemma pending_running_finds_no_timer:
  assumes "reachable s" and "to_observer s = INTERNAL_COMMS_CMD_RUNNING # rest"
  shows "idle_timeout_es (obs (sys_observer s)) = None"
  using reachable_serving_or_resting [OF assms(1)] assms(2)
  by (auto simp: serving_def resting_def Let_def)

text \<open>
  C7. In every state that an observer and its worker reach through their
  handlers, receiving control byte 1 (RUNNING) leaves \<open>worker_state\<close>
  RUNNING and no idle-timeout timer armed. The handler itself sets the
  state and logs; an armed timer has been destroyed before, by
  \<^verbatim>\<open>_accept_connection_and_pass_to_worker\<close>, which sets
  \<open>worker_state\<close> to INIT when it passes the connection, and the worker
  reports RUNNING only for a connection it was passed. For every observer,
  receiving control byte 2 (IDLE) sets \<open>worker_state\<close> to IDLE and arms an
  idle-timeout timer on the monotonic clock at now + 5000000 microseconds;
  when the timer fires, \<open>worker_state\<close> becomes FINI and SIGTERM is sent to
  the worker's pid.
\<close>

theorem observer_state_machine_steps:
  assumes "reachable s" and "to_observer s = INTERNAL_COMMS_CMD_RUNNING # rest"
    and "0 \<le> recv_ret" and "0 \<le> fd" and "0 \<le> send_ret"
  shows "worker_state (obs (sys_observer (observer_receives recv_ret now s))) = WORKER_RUNNING \<and>
         idle_timeout_es (obs (sys_observer (observer_receives recv_ret now s))) = None \<and>
         on_observer_comms_event recv_ret INTERNAL_COMMS_CMD_RUNNING now res =
           (0, res\<lparr>obs := (obs res)\<lparr>worker_state := WORKER_RUNNING\<rparr>,
                   obs_logged := obs_logged res @
                     [LOG_debug (obs_id res) ''Worker state changed to WORKER_RUNNING.'']\<rparr>) \<and>
         accept_connection_and_pass_to_worker fd send_ret (Some ub) (Some res) =
           (0, Some (res\<lparr>obs := (obs res)\<lparr>idle_timeout_es := None, worker_state := WORKER_INIT\<rparr>,
                         obs_logged := obs_logged res @
                           [LOG_debug (obs_id res) ''Worker state changed to WORKER_INIT.''],
                         obs_calls := obs_calls res @
                           [SYS_send_fd (comms_fd (obs res)) fd, SYS_close fd]\<rparr>)) \<and>
         on_observer_comms_event recv_ret INTERNAL_COMMS_CMD_IDLE now res =
           (0, res\<lparr>obs := (obs res)
                     \<lparr>idle_timeout_es :=
                        Some \<lparr>es_clock = CLOCK_MONOTONIC,
                              es_usec = now CLOCK_MONOTONIC + 5000000\<rparr>,
                      worker_state := WORKER_IDLE\<rparr>,
                   obs_logged := obs_logged res @
                     [LOG_debug (obs_id res) ''Worker state changed to WORKER_IDLE.'']\<rparr>) \<and>
         on_idle_task_timeout_event res =
           (0, res\<lparr>obs := (obs res)\<lparr>worker_state := WORKER_FINI\<rparr>,
                   obs_logged := obs_logged res @
                     [LOG_debug (obs_id res) ''Idle timeout expired.'',
                      LOG_debug (obs_id res) ''Worker state changed to WORKER_FINI.''],
                   obs_calls := obs_calls res @ [SYS_kill (worker_pid (obs res)) SIGTERM]\<rparr>)"
proof -
  have none: "idle_timeout_es (obs (sys_observer s)) = None"
    using assms(1,2) by (rule pending_running_finds_no_timer)
  have step: "worker_state (obs (sys_observer (observer_receives recv_ret now s))) = WORKER_RUNNING \<and>
      idle_timeout_es (obs (sys_observer (observer_receives recv_ret now s))) = None"
    using assms(2,3) none
    by (simp add: observer_receives_def on_observer_comms_event_def)
  have rest: "on_observer_comms_event recv_ret INTERNAL_COMMS_CMD_RUNNING now res =
           (0, res\<lparr>obs := (obs res)\<lparr>worker_state := WORKER_RUNNING\<rparr>,
                   obs_logged := obs_logged res @
                     [LOG_debug (obs_id res) ''Worker state changed to WORKER_RUNNING.'']\<rparr>) \<and>
         accept_connection_and_pass_to_worker fd send_ret (Some ub) (Some res) =
           (0, Some (res\<lparr>obs := (obs res)\<lparr>idle_timeout_es := None, worker_state := WORKER_INIT\<rparr>,
                         obs_logged := obs_logged res @
                           [LOG_debug (obs_id res) ''Worker state changed to WORKER_INIT.''],
                         obs_calls := obs_calls res @
                           [SYS_send_fd (comms_fd (obs res)) fd, SYS_close fd]\<rparr>)) \<and>
         on_observer_comms_event recv_ret INTERNAL_COMMS_CMD_IDLE now res =
           (0, res\<lparr>obs := (obs res)
                     \<lparr>idle_timeout_es :=
                        Some \<lparr>es_clock = CLOCK_MONOTONIC,
                              es_usec = now CLOCK_MONOTONIC + 5000000\<rparr>,
                      worker_state := WORKER_IDLE\<rparr>,
                   obs_logged := obs_logged res @
                     [LOG_debug (obs_id res) ''Worker state changed to WORKER_IDLE.'']\<rparr>) \<and>
         on_idle_task_timeout_event res =
           (0, res\<lparr>obs := (obs res)\<lparr>worker_state := WORKER_FINI\<rparr>,
                   obs_logged := obs_logged res @
                     [LOG_debug (obs_id res) ''Idle timeout expired.'',
                      LOG_debug (obs_id res) ''Worker state changed to WORKER_FINI.''],
                   obs_calls := obs_calls res @ [SYS_kill (worker_pid (obs res)) SIGTERM]\<rparr>)"
    using assms(3-5)
    by (simp add: on_observer_comms_event_def accept_connection_and_pass_to_worker_def
        on_idle_task_timeout_event_def INTERNAL_COMMS_CMD_RUNNING_def INTERNAL_COMMS_CMD_IDLE_def
        WORKER_IDLE_TIMEOUT_USEC_def Let_def)
  from step rest show ?thesis by (simp only: simp_thms)
qed

theorem observer_state_machine_steps_witness:
  "reachable running_pending_system \<and>
   to_observer running_pending_system = INTERNAL_COMMS_CMD_RUNNING # [] \<and>
   (0::int) \<le> 1 \<and> (0::int) \<le> 7 \<and> (0::int) \<le> 0 \<and>
   obs (sys_observer (observer_receives 1 example_now running_pending_system)) =
     \<lparr>worker_pid = 1234, comms_fd = 5, idle_timeout_es = None,
      worker_state = WORKER_RUNNING\<rparr> \<and>
   map_option obs
     (snd (accept_connection_and_pass_to_worker 7 0 (Some example_ubridge)
             (Some example_observer))) =
     Some \<lparr>worker_pid = 1234, comms_fd = 5, idle_timeout_es = None,
           worker_state = WORKER_INIT\<rparr> \<and>
   obs (snd (on_observer_comms_event 1 INTERNAL_COMMS_CMD_IDLE example_now example_observer)) =
     \<lparr>worker_pid = 1234, comms_fd = 5,
      idle_timeout_es = Some \<lparr>es_clock = CLOCK_MONOTONIC, es_usec = 6000000\<rparr>,
      worker_state = WORKER_IDLE\<rparr> \<and>
   worker_state (obs (snd (on_idle_task_timeout_event example_observer))) = WORKER_FINI \<and>
   obs_calls (snd (on_idle_task_timeout_event example_observer)) = [SYS_kill 1234 15]"
proof -
  have q: "to_observer running_pending_system = INTERNAL_COMMS_CMD_RUNNING # []"
    by (simp add: running_pending_system_eq)
  note t = observer_state_machine_steps
    [OF reachable_running_pending_system q, of 1 7 0 example_now example_observer example_ubridge]
  have o: "obs (sys_observer (observer_receives 1 example_now running_pending_system)) =
     \<lparr>worker_pid = 1234, comms_fd = 5, idle_timeout_es = None, worker_state = WORKER_RUNNING\<rparr>"
    using t
    by (simp add: running_pending_system_eq observer_receives_def on_observer_comms_event_def)
  show ?thesis
    using t o reachable_running_pending_system q
    by (simp add: example_observer_def example_now_def SIGTERM_def)
qed

text \<open>
  C10. For every control-channel message that is received and whose first
  byte is neither 1 (RUNNING) nor 2 (IDLE), \<^verbatim>\<open>_on_observer_comms_event\<close>
  returns 0 and leaves the observer as it was: its \<open>worker_state\<close>, its
  idle-timeout event source and everything else.
\<close>

theorem other_control_byte_changes_nothing:
  assumes "0 \<le> recv_ret"
    and "buf0 \<noteq> INTERNAL_COMMS_CMD_RUNNING" and "buf0 \<noteq> INTERNAL_COMMS_CMD_IDLE"
  shows "on_observer_comms_event recv_ret buf0 now res = (0, res)"
  using assms by (simp add: on_observer_comms_event_def)

theorem other_control_byte_changes_nothing_witness:
  "(0::int) \<le> 1 \<and> (7 :: 8 word) \<noteq> INTERNAL_COMMS_CMD_RUNNING \<and>
   (7 :: 8 word) \<noteq> INTERNAL_COMMS_CMD_IDLE \<and>
   on_observer_comms_event 1 7 example_now example_observer = (0, example_observer)"
  using other_control_byte_changes_nothing [of 1 7 example_now example_observer]
  by (simp add: INTERNAL_COMMS_CMD_RUNNING_def INTERNAL_COMMS_CMD_IDLE_def)

end
